theory Spec2Isabelle
  imports Main "HOL-Library.Char_ord" "HOL-Library.List_Lexorder" "HOL-Library.AList"
begin

section \<open>Strings and paths\<close>

text \<open>
  The sources use JavaScript strings and the POSIX flavour of Node's \<^verbatim>\<open>path\<close> module
  (\<^verbatim>\<open>sep\<close> is \<^verbatim>\<open>/\<close>).  Strings are modelled as \<^typ>\<open>string\<close>; the library functions
  the sources call are written out below after Node's own implementation.
\<close>

definition sep :: string where
  "sep = ''/''"

text \<open>\<^verbatim>\<open>_.startsWith(s, t)\<close> and \<^verbatim>\<open>_.endsWith(s, t)\<close>.\<close>

definition startsWith :: "string \<Rightarrow> string \<Rightarrow> bool" where
  "startsWith s t = (take (length t) s = t)"

definition endsWith :: "string \<Rightarrow> string \<Rightarrow> bool" where
  "endsWith s t = (length t \<le> length s \<and> drop (length s - length t) s = t)"

text \<open>\<^verbatim>\<open>s.indexOf(t) >= 0\<close>: \<open>t\<close> occurs in \<open>s\<close>.\<close>

fun containsStr :: "string \<Rightarrow> string \<Rightarrow> bool" where
  "containsStr [] t = (t = [])"
| "containsStr (c # cs) t = (startsWith (c # cs) t \<or> containsStr cs t)"

text \<open>
  \<^verbatim>\<open>s.replace(t, r)\<close> with a string pattern: only the leftmost occurrence of \<open>t\<close> is
  replaced.
\<close>

fun replaceStr :: "string \<Rightarrow> string \<Rightarrow> string \<Rightarrow> string" where
  "replaceStr [] t r = (if t = [] then r else [])"
| "replaceStr (c # cs) t r =
     (if startsWith (c # cs) t then r @ drop (length t) (c # cs)
      else c # replaceStr cs t r)"

text \<open>\<^verbatim>\<open>s.substr(n)\<close> for a non-negative \<open>n\<close>.\<close>

definition substr :: "string \<Rightarrow> nat \<Rightarrow> string" where
  "substr s n = drop n s"

text \<open>\<^verbatim>\<open>s.split(sep)\<close> for the one-character separator.\<close>

fun splitOn :: "char \<Rightarrow> string \<Rightarrow> string list" where
  "splitOn c [] = [[]]"
| "splitOn c (x # xs) =
     (if x = c then [] # splitOn c xs
      else (case splitOn c xs of [] \<Rightarrow> [[x]] | s # ss \<Rightarrow> (x # s) # ss))"

fun joinWith :: "string \<Rightarrow> string list \<Rightarrow> string" where
  "joinWith s [] = []"
| "joinWith s [x] = x"
| "joinWith s (x # y # ys) = x @ s @ joinWith s (y # ys)"

text \<open>\<^verbatim>\<open>path.basename(p)\<close>: the last segment, trailing separators ignored.\<close>

definition basename :: "string \<Rightarrow> string" where
  "basename p = rev (takeWhile (\<lambda>c. c \<noteq> CHR ''/'') (dropWhile (\<lambda>c. c = CHR ''/'') (rev p)))"

text \<open>
  \<^verbatim>\<open>path.dirname(p)\<close>.  Node scans from the end down to index 1, skips trailing
  separators, and cuts at the next separator; with none left the result is \<^verbatim>\<open>.\<close>
  (or \<^verbatim>\<open>/\<close> for a rooted path).
\<close>

definition dirname :: "string \<Rightarrow> string" where
  "dirname p =
     (case p of
        [] \<Rightarrow> ''.''
      | c0 # rest \<Rightarrow>
          (case dropWhile (\<lambda>c. c \<noteq> CHR ''/'') (dropWhile (\<lambda>c. c = CHR ''/'') (rev rest)) of
             [] \<Rightarrow> (if c0 = CHR ''/'' then ''/'' else ''.'')
           | _ # r3 \<Rightarrow> (if c0 = CHR ''/'' \<and> r3 = [] then ''//'' else c0 # rev r3)))"

text \<open>\<^verbatim>\<open>path.extname(name)\<close> for a plain file name: from the last dot, unless that dot
  is the first character.\<close>

definition extname :: "string \<Rightarrow> string" where
  "extname name =
     (let b = basename name;
          r = takeWhile (\<lambda>c. c \<noteq> CHR ''.'') (rev b)
      in if length r = length b \<or> Suc (length r) = length b then []
         else CHR ''.'' # rev r)"

text \<open>\<^verbatim>\<open>path.normalize\<close> and \<^verbatim>\<open>path.join\<close>.\<close>

fun normalizeSegments :: "bool \<Rightarrow> string list \<Rightarrow> string list \<Rightarrow> string list" where
  "normalizeSegments allowAboveRoot acc [] = rev acc"
| "normalizeSegments allowAboveRoot acc (s # ss) =
     (if s = [] \<or> s = ''.'' then normalizeSegments allowAboveRoot acc ss
      else if s = ''..'' then
        (case acc of
           [] \<Rightarrow> normalizeSegments allowAboveRoot (if allowAboveRoot then [''..''] else []) ss
         | a # as \<Rightarrow>
             if a = ''..'' then
               normalizeSegments allowAboveRoot (if allowAboveRoot then ''..'' # acc else acc) ss
             else normalizeSegments allowAboveRoot as ss)
      else normalizeSegments allowAboveRoot (s # acc) ss)"

definition path_normalize :: "string \<Rightarrow> string" where
  "path_normalize p =
     (if p = [] then ''.''
      else
        let isAbsolute = (hd p = CHR ''/'');
            trailing = (last p = CHR ''/'');
            body = joinWith ''/'' (normalizeSegments (\<not> isAbsolute) [] (splitOn CHR ''/'' p))
        in if body = [] then (if isAbsolute then ''/'' else if trailing then ''./'' else ''.'')
           else (if isAbsolute then ''/'' else []) @ body @ (if trailing then ''/'' else []))"

definition path_join :: "string list \<Rightarrow> string" where
  "path_join parts =
     (let ne = filter (\<lambda>s. s \<noteq> []) parts
      in if ne = [] then ''.'' else path_normalize (joinWith ''/'' ne))"

text \<open>The segments of a path, as the file system resolves it from its root.\<close>

definition segments :: "string \<Rightarrow> string list" where
  "segments p = normalizeSegments False [] (splitOn CHR ''/'' p)"

text \<open>\<^verbatim>\<open>path.relative(from, to)\<close> for two absolute paths.\<close>

fun stripCommon :: "string list \<Rightarrow> string list \<Rightarrow> string list \<times> string list" where
  "stripCommon (a # as) (b # bs) = (if a = b then stripCommon as bs else (a # as, b # bs))"
| "stripCommon as bs = (as, bs)"

definition path_relative :: "string \<Rightarrow> string \<Rightarrow> string" where
  "path_relative from to =
     (case stripCommon (segments from) (segments to) of
        (up, down) \<Rightarrow> joinWith ''/'' (map (\<lambda>_. ''..'') up @ down))"


section \<open>Manifests and the file system\<close>

text \<open>
  \<^verbatim>\<open>Package.IJson\<close>: the part of a \<^verbatim>\<open>package.json\<close> the code reads.  The
  \<^verbatim>\<open>dependencies\<close> object is an association list in the order \<^verbatim>\<open>for..in\<close> visits
  its keys.
\<close>

record nativescript_block =
  ns_id :: "string option"
  ns_platforms :: "(string \<times> string) list option"

record IJson =
  json_name :: "string option"
  json_version :: "string option"
  json_dependencies :: "(string \<times> string) list"
  json_nativescript :: "nativescript_block option"

record IPrepareInfo =
  pi_time :: string
  pi_bundle :: bool
  pi_release :: bool

text \<open>
  The file system is a finite tree.  A node carries the modification time reported by
  \<^verbatim>\<open>stat\<close> and the one reported by \<^verbatim>\<open>lstat\<close>; a file holds JSON of one of the two
  declared shapes, or other text (on which \<^verbatim>\<open>JSON.parse\<close> and \<^verbatim>\<open>readJson\<close> throw).
\<close>

datatype content = Manifest IJson | PrepareInfoFile IPrepareInfo | Text string

datatype fsnode =
    FsFile int int content
  | FsDir int int "(string \<times> fsnode) list"

fun mtime_of :: "fsnode \<Rightarrow> int" where
  "mtime_of (FsFile m l c) = m"
| "mtime_of (FsDir m l es) = m"

fun lmtime_of :: "fsnode \<Rightarrow> int" where
  "lmtime_of (FsFile m l c) = l"
| "lmtime_of (FsDir m l es) = l"

fun isDirectory :: "fsnode \<Rightarrow> bool" where
  "isDirectory (FsFile m l c) = False"
| "isDirectory (FsDir m l es) = True"

fun lookupSegs :: "fsnode \<Rightarrow> string list \<Rightarrow> fsnode option" where
  "lookupSegs n [] = Some n"
| "lookupSegs (FsFile m l c) (s # ss) = None"
| "lookupSegs (FsDir m l es) (s # ss) =
     (case map_of es s of None \<Rightarrow> None | Some n \<Rightarrow> lookupSegs n ss)"

text \<open>A path is resolved from the root; one that ends in the separator names a
  directory only.\<close>

definition fs_lookup :: "fsnode \<Rightarrow> string \<Rightarrow> fsnode option" where
  "fs_lookup root p =
     (case lookupSegs root (segments p) of
        None \<Rightarrow> None
      | Some n \<Rightarrow> if p \<noteq> [] \<and> last p = CHR ''/'' \<and> \<not> isDirectory n then None else Some n)"

definition fs_exists :: "fsnode \<Rightarrow> string \<Rightarrow> bool" where
  "fs_exists root p = (fs_lookup root p \<noteq> None)"

datatype error = IOError | JsonError | TypeError

text \<open>\<^verbatim>\<open>readJson\<close> of a \<^verbatim>\<open>package.json\<close>, and of the prepare-info file.\<close>

definition readJson :: "fsnode \<Rightarrow> string \<Rightarrow> error + IJson" where
  "readJson root p =
     (case fs_lookup root p of
        Some (FsFile m l (Manifest j)) \<Rightarrow> Inr j
      | Some (FsFile m l c) \<Rightarrow> Inl JsonError
      | _ \<Rightarrow> Inl IOError)"

definition readPrepareInfo :: "fsnode \<Rightarrow> string \<Rightarrow> error + IPrepareInfo" where
  "readPrepareInfo root p =
     (case fs_lookup root p of
        Some (FsFile m l (PrepareInfoFile i)) \<Rightarrow> Inr i
      | Some (FsFile m l c) \<Rightarrow> Inl JsonError
      | _ \<Rightarrow> Inl IOError)"


section \<open>ProjectChangesInfo\<close>

subsection \<open>fileChangeRequiresBuild\<close>

text \<open>
  The \<^verbatim>\<open>while\<close> loop of \<^verbatim>\<open>fileChangeRequiresBuild\<close>.  The result is \<open>None\<close> when
  the loop never ends, \<open>Some (Inl e)\<close> when \<^verbatim>\<open>readJson\<close> throws, and \<open>Some (Inr b)\<close>
  when it returns \<open>b\<close>.
\<close>

partial_function (option) walkUp :: "fsnode \<Rightarrow> string \<Rightarrow> string \<Rightarrow> string \<Rightarrow> (error + bool) option" where
  "walkUp fs projectDir file filePath =
     (if filePath = ''node_modules'' then Some (Inr False)
      else
        let filePath' = dirname filePath;
            fullFilePath = path_join [projectDir, path_join [filePath', ''package.json'']]
        in if fs_exists fs fullFilePath then
             (case readJson fs fullFilePath of
                Inl e \<Rightarrow> Some (Inl e)
              | Inr json \<Rightarrow>
                  if json_nativescript json \<noteq> None
                     \<and> startsWith file (path_join [filePath', ''platforms''])
                  then Some (Inr True)
                  else walkUp fs projectDir file filePath')
           else walkUp fs projectDir file filePath')"

declare walkUp.simps [code]

definition fileChangeRequiresBuild :: "string \<Rightarrow> string \<Rightarrow> fsnode \<Rightarrow> (error + bool) option" where
  "fileChangeRequiresBuild file projectDir fs =
     (if basename file = ''package.json'' then Some (Inr True)
      else if startsWith file ''node_modules''
              \<and> \<not> startsWith file (path_join [''node_modules'', ''tns-core-modules''])
           then walkUp fs projectDir file file
      else Some (Inr False))"

text \<open>A project directory \<^verbatim>\<open>/proj\<close> that holds nothing.\<close>

definition emptyProject :: fsnode where
  "emptyProject = FsDir 0 0 [(''proj'', FsDir 0 0 [])]"



subsection \<open>The constructor\<close>

text \<open>
  What the constructor is given: its arguments \<^verbatim>\<open>platform\<close>, \<^verbatim>\<open>force\<close> and
  \<^verbatim>\<open>skipModulesAndResources\<close>, the values it reads from \<^verbatim>\<open>$platformsData\<close>,
  \<^verbatim>\<open>$projectData\<close>, \<^verbatim>\<open>$devicePlatformsConstants\<close> and \<^verbatim>\<open>$options\<close>, the clock
  (\<^verbatim>\<open>new Date().toString()\<close>) and the file system.
\<close>

record pci_env =
  pe_platform :: string
  pe_force :: bool
  pe_skipModulesAndResources :: bool
  pe_projectRoot :: string
  pe_normalizedPlatformName :: string
  pe_configurationFileName :: string
  pe_appDirectoryPath :: string
  pe_appResourcesDirectoryPath :: string
  pe_projectDir :: string
  pe_iOS :: string
  pe_bundle :: bool
  pe_release :: bool
  pe_baseConfig :: "string option"
  pe_now :: string
  pe_fs :: fsnode

text \<open>
  The object: its six flags, \<^verbatim>\<open>prepareInfo\<close>, the \<^verbatim>\<open>newFiles\<close> counter, and the
  \<^verbatim>\<open>writeJson\<close> call the constructor made, if it made one (the file and the value).
\<close>

record ProjectChangesInfo =
  appFilesChanged :: bool
  appResourcesChanged :: bool
  modulesChanged :: bool
  configChanged :: bool
  prepareInfo :: IPrepareInfo
  packageChanged :: bool
  nativeChanged :: bool
  newFiles :: nat
  written :: "(string \<times> IPrepareInfo) option"

definition prepareInfoFileName :: string where
  "prepareInfoFileName = ''.nsprepareinfo''"

definition hasChanges :: "ProjectChangesInfo \<Rightarrow> bool" where
  "hasChanges c =
     (packageChanged c \<or> appFilesChanged c \<or> appResourcesChanged c \<or> modulesChanged c
      \<or> configChanged c)"

definition changesRequireBuild :: "ProjectChangesInfo \<Rightarrow> bool" where
  "changesRequireBuild c = (packageChanged c \<or> appResourcesChanged c \<or> nativeChanged c)"

definition toLowerCase :: "string \<Rightarrow> string" where
  "toLowerCase s =
     map (\<lambda>c. if CHR ''A'' \<le> c \<and> c \<le> CHR ''Z'' then char_of (of_char c + (32 :: nat)) else c) s"

definition filesChanged :: "fsnode \<Rightarrow> string list \<Rightarrow> int \<Rightarrow> bool" where
  "filesChanged fs files mtime =
     list_ex (\<lambda>file. case fs_lookup fs file of
                        Some node \<Rightarrow> mtime_of node > mtime
                      | None \<Rightarrow> False) files"

definition readDirectory :: "fsnode \<Rightarrow> string \<Rightarrow> error + (string \<times> fsnode) list" where
  "readDirectory root p =
     (case fs_lookup root p of Some (FsDir m l es) \<Rightarrow> Inr es | _ \<Rightarrow> Inl IOError)"

text \<open>
  \<^verbatim>\<open>containsNewerFiles(dir, skipDir, mtime, processFunc)\<close>, as the loop over the entries
  of \<open>dir\<close>; \<open>n\<close> is \<^verbatim>\<open>this.newFiles\<close> and the result holds its new value.  \<open>skipDir\<close>
  and \<open>processFunc\<close> are \<open>None\<close> for \<^verbatim>\<open>null\<close> and for a missing argument.
\<close>

fun containsNewerFilesIn ::
  "fsnode \<Rightarrow> string \<Rightarrow> (string \<Rightarrow> string \<Rightarrow> fsnode \<Rightarrow> (error + bool) option) option
     \<Rightarrow> string option \<Rightarrow> int \<Rightarrow> string \<Rightarrow> (string \<times> fsnode) list \<Rightarrow> nat
     \<Rightarrow> (error + bool \<times> nat) option" where
  "containsNewerFilesIn fs projectDir processFunc skipDir mtime dir [] n = Some (Inr (False, n))"
| "containsNewerFilesIn fs projectDir processFunc skipDir mtime dir ((file, node) # rest) n =
     (let filePath = path_join [dir, file]
      in if Some filePath = skipDir
         then containsNewerFilesIn fs projectDir processFunc skipDir mtime dir rest n
         else
           (case (if mtime_of node > mtime \<or> lmtime_of node > mtime then
                    (case processFunc of
                       Some pf \<Rightarrow>
                         (case pf (path_relative projectDir filePath) projectDir fs of
                            None \<Rightarrow> None
                          | Some (Inl e) \<Rightarrow> Some (Inl e)
                          | Some (Inr b) \<Rightarrow> Some (Inr (b, Suc n)))
                     | None \<Rightarrow> Some (Inr (True, n)))
                  else Some (Inr (False, n))) of
              None \<Rightarrow> None
            | Some (Inl e) \<Rightarrow> Some (Inl e)
            | Some (Inr (True, n1)) \<Rightarrow> Some (Inr (True, n1))
            | Some (Inr (False, n1)) \<Rightarrow>
                (case node of
                   FsDir m l es \<Rightarrow>
                     (case containsNewerFilesIn fs projectDir processFunc skipDir mtime filePath es n1 of
                        None \<Rightarrow> None
                      | Some (Inl e) \<Rightarrow> Some (Inl e)
                      | Some (Inr (True, n2)) \<Rightarrow> Some (Inr (True, n2))
                      | Some (Inr (False, n2)) \<Rightarrow>
                          containsNewerFilesIn fs projectDir processFunc skipDir mtime dir rest n2)
                 | FsFile m l c \<Rightarrow>
                     containsNewerFilesIn fs projectDir processFunc skipDir mtime dir rest n1)))"

definition containsNewerFiles ::
  "fsnode \<Rightarrow> string \<Rightarrow> (string \<Rightarrow> string \<Rightarrow> fsnode \<Rightarrow> (error + bool) option) option
     \<Rightarrow> string \<Rightarrow> string option \<Rightarrow> int \<Rightarrow> nat \<Rightarrow> (error + bool \<times> nat) option" where
  "containsNewerFiles fs projectDir processFunc dir skipDir mtime n =
     (case readDirectory fs dir of
        Inl e \<Rightarrow> Some (Inl e)
      | Inr es \<Rightarrow> containsNewerFilesIn fs projectDir processFunc skipDir mtime dir es n)"

text \<open>The files whose change sets \<^verbatim>\<open>configChanged\<close>.\<close>

definition configFiles :: "pci_env \<Rightarrow> string list" where
  "configFiles env =
     (let platformResourcesDir =
            path_join [pe_appResourcesDirectoryPath env, pe_normalizedPlatformName env]
      in if pe_platform env = toLowerCase (pe_iOS env) then
           [(case pe_baseConfig env of
               Some b \<Rightarrow> if b \<noteq> [] then b
                         else path_join [platformResourcesDir, pe_configurationFileName env]
             | None \<Rightarrow> path_join [platformResourcesDir, pe_configurationFileName env]),
            path_join [platformResourcesDir, ''LaunchScreen.storyboard''],
            path_join [platformResourcesDir, ''build.xcconfig'']]
         else
           [path_join [platformResourcesDir, pe_configurationFileName env],
            path_join [platformResourcesDir, ''app.gradle'']])"

text \<open>The object with the field initialisers applied.\<close>

definition initialChangesInfo :: ProjectChangesInfo where
  "initialChangesInfo =
     \<lparr> appFilesChanged = False, appResourcesChanged = False, modulesChanged = False,
       configChanged = False,
       prepareInfo = \<lparr> pi_time = [], pi_bundle = False, pi_release = False \<rparr>,
       packageChanged = False, nativeChanged = False, newFiles = 0, written = None \<rparr>"

text \<open>The \<^verbatim>\<open>if (!skipModulesAndResources)\<close> block.\<close>

definition checkModulesAndResources ::
  "pci_env \<Rightarrow> int \<Rightarrow> ProjectChangesInfo \<Rightarrow> (error + ProjectChangesInfo) option" where
  "checkModulesAndResources env outputProjectMtime c =
     (let c1 = c\<lparr>packageChanged :=
                   filesChanged (pe_fs env) [path_join [pe_projectDir env, ''package.json'']]
                     outputProjectMtime\<rparr>
      in case containsNewerFiles (pe_fs env) (pe_projectDir env) None
                (pe_appResourcesDirectoryPath env) None outputProjectMtime (newFiles c1) of
           None \<Rightarrow> None
         | Some (Inl e) \<Rightarrow> Some (Inl e)
         | Some (Inr (res, n1)) \<Rightarrow>
             (case containsNewerFiles (pe_fs env) (pe_projectDir env) (Some fileChangeRequiresBuild)
                     (path_join [pe_projectDir env, ''node_modules''])
                     (Some (path_join [pe_projectDir env, ''node_modules'', ''tns-ios-inspector'']))
                     outputProjectMtime n1 of
                None \<Rightarrow> None
              | Some (Inl e) \<Rightarrow> Some (Inl e)
              | Some (Inr (native, n2)) \<Rightarrow>
                  let c2 = c1\<lparr>appResourcesChanged := res, nativeChanged := native, newFiles := n2\<rparr>;
                      c3 = (if newFiles c2 > 0 then c2\<lparr>modulesChanged := True\<rparr> else c2)
                  in Some (Inr (c3\<lparr>configChanged :=
                                   filesChanged (pe_fs env) (configFiles env) outputProjectMtime\<rparr>))))"

text \<open>The \<^verbatim>\<open>else\<close> branch of the constructor: a prepare-info file exists and \<^verbatim>\<open>force\<close>
  is off.\<close>

definition reconcile :: "pci_env \<Rightarrow> string \<Rightarrow> (error + ProjectChangesInfo) option" where
  "reconcile env buildInfoFile =
     (case fs_lookup (pe_fs env) buildInfoFile of
        None \<Rightarrow> Some (Inl IOError)
      | Some node \<Rightarrow>
          let outputProjectMtime = mtime_of node
          in (case readPrepareInfo (pe_fs env) buildInfoFile of
                Inl e \<Rightarrow> Some (Inl e)
              | Inr info \<Rightarrow>
                  (case containsNewerFiles (pe_fs env) (pe_projectDir env) None
                          (pe_appDirectoryPath env) (Some (pe_appResourcesDirectoryPath env))
                          outputProjectMtime 0 of
                     None \<Rightarrow> None
                   | Some (Inl e) \<Rightarrow> Some (Inl e)
                   | Some (Inr (app, n)) \<Rightarrow>
                       (case (if \<not> pe_skipModulesAndResources env
                              then checkModulesAndResources env outputProjectMtime
                                     (initialChangesInfo\<lparr>prepareInfo := info, appFilesChanged := app,
                                                         newFiles := n\<rparr>)
                              else Some (Inr (initialChangesInfo\<lparr>prepareInfo := info,
                                                appFilesChanged := app, newFiles := n\<rparr>))) of
                          None \<Rightarrow> None
                        | Some (Inl e) \<Rightarrow> Some (Inl e)
                        | Some (Inr c) \<Rightarrow>
                            let c1 = (if pe_bundle env \<noteq> pi_bundle (prepareInfo c)
                                         \<or> pe_release env \<noteq> pi_release (prepareInfo c)
                                      then c\<lparr>appFilesChanged := True, appResourcesChanged := True,
                                             modulesChanged := True, configChanged := True,
                                             prepareInfo := (prepareInfo c)
                                               \<lparr>pi_release := pe_release env,
                                                pi_bundle := pe_bundle env\<rparr>\<rparr>
                                      else c);
                                c2 = (if packageChanged c1 then c1\<lparr>modulesChanged := True\<rparr> else c1);
                                c3 = (if modulesChanged c2 \<or> appResourcesChanged c2
                                      then c2\<lparr>configChanged := True\<rparr> else c2)
                            in Some (Inr c3)))))"

text \<open>The constructor.  \<open>None\<close>: a call of \<^verbatim>\<open>fileChangeRequiresBuild\<close> did not return;
  \<open>Some (Inl e)\<close>: the constructor threw.\<close>

definition newProjectChangesInfo :: "pci_env \<Rightarrow> (error + ProjectChangesInfo) option" where
  "newProjectChangesInfo env =
     (let buildInfoFile = path_join [pe_projectRoot env, prepareInfoFileName]
      in case (if pe_force env \<or> \<not> fs_exists (pe_fs env) buildInfoFile then
                 Some (Inr (initialChangesInfo
                    \<lparr>appFilesChanged := True, appResourcesChanged := True, modulesChanged := True,
                     configChanged := True,
                     prepareInfo := \<lparr> pi_time = [], pi_bundle = pe_bundle env,
                                      pi_release = pe_release env \<rparr>\<rparr>))
               else reconcile env buildInfoFile) of
           None \<Rightarrow> None
         | Some (Inl e) \<Rightarrow> Some (Inl e)
         | Some (Inr c) \<Rightarrow>
             if hasChanges c then
               let info = (prepareInfo c)\<lparr>pi_time := pe_now env\<rparr>
               in Some (Inr (c\<lparr>prepareInfo := info, written := Some (buildInfoFile, info)\<rparr>))
             else Some (Inr c))"

text \<open>
  A project prepared for Android at time 10, in which the plugin \<^verbatim>\<open>nat\<close> has a native
  library changed at time 20.
\<close>

definition nativePluginProject :: fsnode where
  "nativePluginProject = FsDir 0 0 [(''proj'', FsDir 1 1
      [(''package.json'', FsFile 1 1 (Manifest \<lparr> json_name = None, json_version = Some ''1.0.0'',
            json_dependencies = [(''nat'', ''*'')], json_nativescript = None \<rparr>)),
       (''app'', FsDir 1 1
          [(''main.js'', FsFile 1 1 (Text ''x'')),
           (''App_Resources'', FsDir 1 1
              [(''Android'', FsDir 1 1 [(''AndroidManifest.xml'', FsFile 1 1 (Text ''m''))])])]),
       (''node_modules'', FsDir 1 1
          [(''nat'', FsDir 1 1
              [(''package.json'', FsFile 1 1 (Manifest \<lparr> json_name = None,
                    json_version = Some ''1.0.0'', json_dependencies = [],
                    json_nativescript = Some \<lparr> ns_id = None,
                       ns_platforms = Some [(''android'', ''1.0.0'')] \<rparr> \<rparr>)),
               (''platforms'', FsDir 1 1
                  [(''android'', FsDir 1 1 [(''libfoo.so'', FsFile 20 20 (Text ''so''))])])])]),
       (''platforms'', FsDir 1 1
          [(''android'', FsDir 1 1
              [(''.nsprepareinfo'', FsFile 10 10 (PrepareInfoFile
                  \<lparr> pi_time = ''t0'', pi_bundle = False, pi_release = False \<rparr>))])])])]"

definition androidPrepare :: pci_env where
  "androidPrepare =
     \<lparr> pe_platform = ''android'', pe_force = False, pe_skipModulesAndResources = False,
       pe_projectRoot = ''/proj/platforms/android'', pe_normalizedPlatformName = ''Android'',
       pe_configurationFileName = ''AndroidManifest.xml'', pe_appDirectoryPath = ''/proj/app'',
       pe_appResourcesDirectoryPath = ''/proj/app/App_Resources'', pe_projectDir = ''/proj'',
       pe_iOS = ''iOS'', pe_bundle = False, pe_release = False, pe_baseConfig = None,
       pe_now = ''t1'', pe_fs = nativePluginProject \<rparr>"
section \<open>Live sync\<close>

subsection \<open>The per-device sync action\<close>

text \<open>
  The calls \<^verbatim>\<open>getSyncAction\<close> and \<^verbatim>\<open>deploy\<close> make on their collaborators, in the order
  they are made.  \<^verbatim>\<open>RefreshApplication b\<close> is the call of
  \<^verbatim>\<open>refreshApplication(deviceAppData, paths)\<close>, with \<open>b\<close> true when \<^verbatim>\<open>paths\<close> is
  \<^verbatim>\<open>null\<close>; \<^verbatim>\<open>SaveLivesyncInfo t\<close> is the write of \<open>t\<close> to the device's
  \<^verbatim>\<open>.nslivesyncinfo\<close>.
\<close>

datatype event =
    BuildPlatform
  | PlatformDeploy
  | ReinstallApplication
  | SaveLivesyncInfo string
  | FileSyncAction
  | RefreshApplication bool
  | FinishLivesync
  | AfterFileSyncAction

text \<open>
  What the action reads from its surroundings: the project directory and file system,
  the latest prepare info (\<open>None\<close> when \<^verbatim>\<open>.nsprepareinfo\<close> is absent), the latest build
  time, the \<^verbatim>\<open>changesRequireBuild\<close> flag of the latest changes info, whether the device
  is an emulator, and which collaborator calls throw.
\<close>

record livesync_env =
  ls_projectDir :: string
  ls_fs :: fsnode
  ls_prepareInfo :: "IPrepareInfo option"
  ls_latestBuildTime :: string
  ls_changesRequireBuild :: bool
  ls_throws :: "event \<Rightarrow> bool"

text \<open>
  The state: the calls made so far, each with whether it completed, and the content of
  the device's \<^verbatim>\<open>.nslivesyncinfo\<close> (\<open>None\<close> when the file does not exist).
\<close>

record livesync_state =
  ls_events :: "(event \<times> bool) list"
  ls_livesyncInfo :: "string option"

type_synonym 's action = "'s \<Rightarrow> error option \<times> 's"

definition andThen :: "'s action \<Rightarrow> 's action \<Rightarrow> 's action" where
  "andThen a b s = (case a s of (None, s') \<Rightarrow> b s' | (Some e, s') \<Rightarrow> (Some e, s'))"

definition skip :: "'s action" where
  "skip s = (None, s)"

definition call :: "livesync_env \<Rightarrow> event \<Rightarrow> livesync_state action" where
  "call env ev s =
     (if ls_throws env ev then (Some IOError, s\<lparr>ls_events := ls_events s @ [(ev, False)]\<rparr>)
      else (None, s\<lparr>ls_events := ls_events s @ [(ev, True)]\<rparr>))"

definition shouldBuildWhenLivesyncing :: "livesync_env \<Rightarrow> livesync_state \<Rightarrow> error + bool" where
  "shouldBuildWhenLivesyncing env s =
     (case ls_prepareInfo env of
        None \<Rightarrow> Inl TypeError
      | Some latest \<Rightarrow>
          if pi_time latest \<noteq> ls_latestBuildTime env then
            (case ls_livesyncInfo s of
               Some livesyncTime \<Rightarrow>
                 Inr (pi_time latest \<noteq> livesyncTime \<and> ls_changesRequireBuild env)
             | None \<Rightarrow> Inr (ls_changesRequireBuild env))
          else Inr False)"

definition saveLivesyncInfo :: "livesync_env \<Rightarrow> livesync_state action" where
  "saveLivesyncInfo env s =
     (case ls_prepareInfo env of
        None \<Rightarrow> (Some TypeError, s)
      | Some latest \<Rightarrow>
          (case call env (SaveLivesyncInfo (pi_time latest)) s of
             (None, s') \<Rightarrow> (None, s'\<lparr>ls_livesyncInfo := Some (pi_time latest)\<rparr>)
           | (Some e, s') \<Rightarrow> (Some e, s')))"

definition deploy :: "livesync_env \<Rightarrow> livesync_state action" where
  "deploy env s =
     (case shouldBuildWhenLivesyncing env s of
        Inl e \<Rightarrow> (Some e, s)
      | Inr build \<Rightarrow>
          andThen (if build then call env BuildPlatform else skip)
         (andThen (call env PlatformDeploy)
         (andThen (call env ReinstallApplication)
                  (saveLivesyncInfo env))) s)"

text \<open>\<^verbatim>\<open>changeRequiresDeploy\<close>: \<open>None\<close> when a call of \<^verbatim>\<open>fileChangeRequiresBuild\<close> does
  not return.\<close>

fun changeRequiresDeploy :: "livesync_env \<Rightarrow> string list \<Rightarrow> (error + bool) option" where
  "changeRequiresDeploy env [] = Some (Inr False)"
| "changeRequiresDeploy env (file # files) =
     (case fileChangeRequiresBuild file (ls_projectDir env) (ls_fs env) of
        None \<Rightarrow> None
      | Some (Inl e) \<Rightarrow> Some (Inl e)
      | Some (Inr True) \<Rightarrow> Some (Inr True)
      | Some (Inr False) \<Rightarrow> changeRequiresDeploy env files)"

text \<open>
  The action \<^verbatim>\<open>getSyncAction\<close> returns, run on one device.  \<open>hasAfter\<close> says whether an
  \<^verbatim>\<open>afterFileSyncAction\<close> was passed.
\<close>

definition getSyncAction ::
  "livesync_env \<Rightarrow> string list \<Rightarrow> bool \<Rightarrow> livesync_state \<Rightarrow> (error option \<times> livesync_state) option" where
  "getSyncAction env filesToSync hasAfter s =
     (case changeRequiresDeploy env filesToSync of
        None \<Rightarrow> None
      | Some (Inl e) \<Rightarrow> Some (Some e, s)
      | Some (Inr True) \<Rightarrow>
          Some (andThen (deploy env) (call env (RefreshApplication True)) s)
      | Some (Inr False) \<Rightarrow>
          Some (andThen (call env FileSyncAction)
               (andThen (if \<not> hasAfter then call env (RefreshApplication False) else skip)
               (andThen (call env FinishLivesync)
               (andThen (if hasAfter then call env AfterFileSyncAction else skip)
                        (saveLivesyncInfo env)))) s))"

text \<open>An environment in which every call completes and a build is up to date.\<close>

definition quietEnv :: livesync_env where
  "quietEnv =
     \<lparr> ls_projectDir = ''/proj'', ls_fs = emptyProject,
       ls_prepareInfo = Some \<lparr> pi_time = ''t1'', pi_bundle = False, pi_release = False \<rparr>,
       ls_latestBuildTime = ''t1'', ls_changesRequireBuild = False,
       ls_throws = (\<lambda>_. False) \<rparr>"

definition freshDevice :: livesync_state where
  "freshDevice = \<lparr> ls_events = [], ls_livesyncInfo = None \<rparr>"

text \<open>The position of the first element that satisfies \<open>P\<close>, if there is one.\<close>

fun firstIndex :: "('a \<Rightarrow> bool) \<Rightarrow> 'a list \<Rightarrow> nat option" where
  "firstIndex P [] = None"
| "firstIndex P (x # xs) =
     (if P x then Some 0 else map_option Suc (firstIndex P xs))"

fun isStamp :: "event \<times> bool \<Rightarrow> bool" where
  "isStamp (SaveLivesyncInfo t, ok) = True"
| "isStamp (ev, ok) = False"

fun isCompletedRefresh :: "event \<times> bool \<Rightarrow> bool" where
  "isCompletedRefresh (RefreshApplication b, ok) = ok"
| "isCompletedRefresh (ev, ok) = False"

text \<open>
  The property of a run that the claim states: every write of the stamp has a completed
  refresh before it.
\<close>

fun stampAfterRefresh :: "bool \<Rightarrow> (event \<times> bool) list \<Rightarrow> bool" where
  "stampAfterRefresh refreshed [] = True"
| "stampAfterRefresh refreshed (e # es) =
     ((isStamp e \<longrightarrow> refreshed) \<and> stampAfterRefresh (refreshed \<or> isCompletedRefresh e) es)"



subsection \<open>The iOS device service\<close>

text \<open>
  \<^verbatim>\<open>IOSLiveSyncService\<close>.  The state is the debugger socket (present or \<^verbatim>\<open>null\<close>), the
  module's message counter, the messages written to the socket, the number of
  \<^verbatim>\<open>restartApplication\<close> calls, and the \<^verbatim>\<open>liveEdit\<close> calls that were started and not
  waited for, each with its files.  The environment says whether \<^verbatim>\<open>liveEdit\<close> is on,
  whether the device is a simulator, which local paths are on the fast-sync list,
  whether a connection to port 18181 can be made, what \<^verbatim>\<open>readText\<close> returns (\<open>None\<close>
  when it throws) and which socket writes succeed.  A message is its method, its
  parameters and its id.
\<close>

record ILocalToDevicePathData =
  localPath :: string
  devicePath :: string

datatype message =
    DebuggerEnable nat
  | SetScriptSource string string nat
  | PageReload nat

record ios_env =
  ios_liveEdit :: bool
  ios_isEmulator :: bool
  ios_canExecuteFastSync :: "string \<Rightarrow> bool"
  ios_connects :: bool
  ios_readText :: "string \<Rightarrow> string option"
  ios_writeOk :: "message \<Rightarrow> bool"

record ios_state =
  socket :: bool
  currentPageReloadId :: nat
  sent :: "message list"
  restarts :: nat
  liveEdits :: "ILocalToDevicePathData list list"

definition destroySocket :: "ios_state \<Rightarrow> ios_state" where
  "destroySocket s = (if socket s then s\<lparr>socket := False\<rparr> else s)"

definition sendMessage :: "ios_env \<Rightarrow> message \<Rightarrow> ios_state \<Rightarrow> ios_state" where
  "sendMessage env message s =
     (if \<not> socket s then destroySocket s
      else if ios_writeOk env message then s\<lparr>sent := sent s @ [message]\<rparr>
      else destroySocket s)"

definition setupSocketIfNeeded :: "ios_env \<Rightarrow> ios_state \<Rightarrow> (error + bool) \<times> ios_state" where
  "setupSocketIfNeeded env s =
     (if socket s then (Inr True, s)
      else
        let s1 = s\<lparr>currentPageReloadId := Suc (currentPageReloadId s)\<rparr>;
            enableDebuggerMessage = DebuggerEnable (currentPageReloadId s1)
        in if ios_connects env then
             (Inr True, sendMessage env enableDebuggerMessage (s1\<lparr>socket := True\<rparr>))
           else if ios_isEmulator env then (Inr False, s1)
           else (Inl IOError, s1))"

definition restartApplication :: "ios_state \<Rightarrow> ios_state" where
  "restartApplication s = s\<lparr>restarts := Suc (restarts s)\<rparr>"

definition reloadPage :: "ios_env \<Rightarrow> ILocalToDevicePathData list \<Rightarrow> ios_state \<Rightarrow> ios_state" where
  "reloadPage env localToDevicePaths s =
     (if length localToDevicePaths \<noteq> 0 then
        let s1 = s\<lparr>currentPageReloadId := Suc (currentPageReloadId s)\<rparr>
        in sendMessage env (PageReload (currentPageReloadId s1)) s1
      else s)"

text \<open>The body of \<^verbatim>\<open>liveEdit\<close>: what the future does once it runs.\<close>

fun liveEdit :: "ios_env \<Rightarrow> ILocalToDevicePathData list \<Rightarrow> ios_state \<Rightarrow> ios_state" where
  "liveEdit env [] s = s"
| "liveEdit env (localToDevicePath # rest) s =
     (case ios_readText env (localPath localToDevicePath) of
        None \<Rightarrow> s
      | Some content \<Rightarrow>
          let s1 = s\<lparr>currentPageReloadId := Suc (currentPageReloadId s)\<rparr>
          in liveEdit env rest
               (sendMessage env
                  (SetScriptSource (devicePath localToDevicePath) content (currentPageReloadId s1)) s1))"

text \<open>
  \<^verbatim>\<open>refreshApplication\<close> calls \<^verbatim>\<open>wait()\<close> on \<^verbatim>\<open>restartApplication\<close>, on
  \<^verbatim>\<open>setupSocketIfNeeded\<close> and on \<^verbatim>\<open>reloadPage\<close>.  \<^verbatim>\<open>this.liveEdit(scriptFiles)\<close> is
  called without it: the future is made and nothing waits for it, so the call is kept
  in the state as started and its body is not part of the run.
\<close>

definition refreshApplication ::
  "ios_env \<Rightarrow> ILocalToDevicePathData list \<Rightarrow> bool \<Rightarrow> ios_state \<Rightarrow> error option \<times> ios_state" where
  "refreshApplication env localToDevicePaths forceExecuteFullSync s =
     (if forceExecuteFullSync then (None, restartApplication s)
      else
        let scriptFiles = filter (\<lambda>p. endsWith (devicePath p) ''.js'') localToDevicePaths;
            otherFiles = filter (\<lambda>p. p \<notin> set scriptFiles) localToDevicePaths;
            shouldRestart = list_ex (\<lambda>p. \<not> ios_canExecuteFastSync env (localPath p)) otherFiles
        in if shouldRestart then (None, restartApplication s)
           else if \<not> ios_liveEdit env \<and> length scriptFiles \<noteq> 0 then (None, restartApplication s)
           else
             (case setupSocketIfNeeded env s of
                (Inl e, s1) \<Rightarrow> (Some e, s1)
              | (Inr True, s1) \<Rightarrow>
                  (None, reloadPage env otherFiles
                           (s1\<lparr>liveEdits := liveEdits s1 @ [scriptFiles]\<rparr>))
              | (Inr False, s1) \<Rightarrow> (None, s1)))"

fun isPageReload :: "message \<Rightarrow> bool" where
  "isPageReload (PageReload i) = True"
| "isPageReload m = False"

fun isSetScriptSource :: "message \<Rightarrow> bool" where
  "isSetScriptSource (SetScriptSource u c i) = True"
| "isSetScriptSource m = False"

fun scriptUrl :: "message \<Rightarrow> string" where
  "scriptUrl (SetScriptSource u c i) = u"
| "scriptUrl m = []"

definition liveEnv :: ios_env where
  "liveEnv = \<lparr> ios_liveEdit = True, ios_isEmulator = True, ios_canExecuteFastSync = (\<lambda>_. True),
       ios_connects = True, ios_readText = (\<lambda>_. Some ''exports.x = 1;''), ios_writeOk = (\<lambda>_. True) \<rparr>"

definition idle :: ios_state where
  "idle = \<lparr> socket = False, currentPageReloadId = 0, sent = [], restarts = 0,
             liveEdits = [] \<rparr>"

definition mainJs :: ILocalToDevicePathData where
  "mainJs = \<lparr> localPath = ''/proj/app/main.js'', devicePath = ''/data/app/main.js'' \<rparr>"



section \<open>Project.Source\<close>

text \<open>
  Packages are objects that are shared between the tree (\<^verbatim>\<open>children\<close>) and the flat
  \<^verbatim>\<open>dependencies\<close> table, and that are updated in place.  The model keeps them in a
  store, \<open>packs\<close>: a package is its position there, \<^verbatim>\<open>children\<close> and the table hold
  positions, and the app is at position 0.  The table is an association list in
  insertion order.  The \<^verbatim>\<open>resolvedAt...\<close> objects are used as sets of names (\<open>{}\<close> stands
  for the \<^verbatim>\<open>null\<close> of a nested package, which is never read).  Membership in the table
  and in these sets is that of a name the code has put there: the names that a plain
  JavaScript object inherits (\<^verbatim>\<open>constructor\<close>, \<^verbatim>\<open>toString\<close>, ...), for which \<^verbatim>\<open>in\<close> is true
  on every object, are not package names of the model.
\<close>

datatype Type = App | Package | Nested

datatype Availability = Available | NotInstalled | ShadowedByAncestor | ShadowedByDiverged

record IFile =
  f_path :: string
  f_absolutePath :: string
  f_name :: string
  f_extension :: string
  f_mtime :: int

record IPackage =
  p_type :: Type
  p_name :: string
  p_path :: string
  p_packageJson :: "IJson option"
  p_version :: "string option"
  p_requiredVersion :: "string option"
  p_resolvedAtParent :: "string set"
  p_resolvedAtGrandparent :: "string set"
  p_children :: "nat list"
  p_scriptFiles :: "IFile list"
  p_nativeFiles :: "(string \<times> IFile list) list"
  p_directories :: "string list"
  p_availability :: Availability

record Source =
  packs :: "IPackage list"
  dependencies :: "(string \<times> nat) list"

text \<open>
  What \<^verbatim>\<open>Source\<close> is given: the project path, the working directory of the process
  (from which the file system resolves a relative path), the file system, the
  platforms, and the \<^verbatim>\<open>semver\<close> library's \<^verbatim>\<open>gt\<close> (\<open>None\<close> when it throws on an invalid
  version).
\<close>

record source_env =
  projectPath :: string
  cwd :: string
  fsroot :: fsnode
  semver_gt :: "string \<Rightarrow> string \<Rightarrow> bool option"
  platforms :: "string list"

text \<open>
  The order in which \<^verbatim>\<open>for..in\<close> and \<^verbatim>\<open>Object.keys\<close> visit the keys of the table: Node
  visits the keys that are array indices (\<^verbatim>\<open>"0"\<close>, \<^verbatim>\<open>"7"\<close>, \<^verbatim>\<open>"12"\<close>, below \<open>2\<^sup>3\<^sup>2 - 1\<close>)
  first, in ascending order, and then the other keys in the order they were added.
\<close>

definition digitsValue :: "string \<Rightarrow> int" where
  "digitsValue s = foldl (\<lambda>n c. 10 * n + (of_char c - 48)) 0 s"

definition isArrayIndex :: "string \<Rightarrow> bool" where
  "isArrayIndex s =
     (s \<noteq> [] \<and> list_all (\<lambda>c. CHR ''0'' \<le> c \<and> c \<le> CHR ''9'') s
      \<and> (s = ''0'' \<or> hd s \<noteq> CHR ''0'') \<and> digitsValue s < 4294967295)"

definition forInKeys :: "(string \<times> 'a) list \<Rightarrow> string list" where
  "forInKeys table =
     sort_key digitsValue (filter isArrayIndex (map fst table))
     @ filter (\<lambda>k. \<not> isArrayIndex k) (map fst table)"

definition updatePack :: "nat \<Rightarrow> (IPackage \<Rightarrow> IPackage) \<Rightarrow> Source \<Rightarrow> Source" where
  "updatePack i f src = src\<lparr>packs := (packs src)[i := f (packs src ! i)]\<rparr>"

definition setAvailability :: "nat \<Rightarrow> Availability \<Rightarrow> Source \<Rightarrow> Source" where
  "setAvailability i a = updatePack i (\<lambda>p. p\<lparr>p_availability := a\<rparr>)"

definition inDependencies :: "string \<Rightarrow> Source \<Rightarrow> bool" where
  "inDependencies n src = (map_of (dependencies src) n \<noteq> None)"

definition setDependency :: "string \<Rightarrow> nat \<Rightarrow> Source \<Rightarrow> Source" where
  "setDependency n i src = src\<lparr>dependencies := AList.update n i (dependencies src)\<rparr>"

text \<open>\<^verbatim>\<open>semver.gt(a, b)\<close>; a missing version is an invalid one.\<close>

definition semverGt :: "source_env \<Rightarrow> string option \<Rightarrow> string option \<Rightarrow> error + bool" where
  "semverGt env a b =
     (case (a, b) of
        (Some v, Some w) \<Rightarrow> (case semver_gt env v w of None \<Rightarrow> Inl TypeError | Some r \<Rightarrow> Inr r)
      | _ \<Rightarrow> Inl TypeError)"

text \<open>
  The \<^verbatim>\<open>if (pack.type === App) ... else if (pack.name in this.dependencies) ... else ...\<close>
  block of \<^verbatim>\<open>selectDependencyPackages\<close>, for the package at position \<open>i\<close> whose manifest
  \<open>json\<close> has just been read.
\<close>

definition resolveConflicts :: "source_env \<Rightarrow> nat \<Rightarrow> IPackage \<Rightarrow> IJson \<Rightarrow> Source \<Rightarrow> error + Source" where
  "resolveConflicts env i pack json src =
     (if p_type pack = App then
        (case json_nativescript json of
           Some ns \<Rightarrow>
             (case ns_id ns of
                Some ident \<Rightarrow>
                  if ident \<noteq> [] then Inr (updatePack i (\<lambda>p. p\<lparr>p_name := ident\<rparr>) src) else Inr src
              | None \<Rightarrow> Inr src)
         | None \<Rightarrow> Inr src)
      else
        (case map_of (dependencies src) (p_name pack) of
           Some other \<Rightarrow>
             (case p_packageJson (packs src ! other) of
                None \<Rightarrow> Inl TypeError
              | Some otherJson \<Rightarrow>
                  (case semverGt env (json_version json) (json_version otherJson) of
                     Inl e \<Rightarrow> Inl e
                   | Inr True \<Rightarrow>
                       Inr (setDependency (p_name pack) i
                             (setAvailability other ShadowedByDiverged
                               (setAvailability i Available src)))
                   | Inr False \<Rightarrow> Inr (setAvailability i ShadowedByDiverged src)))
         | None \<Rightarrow> Inr (setDependency (p_name pack) i (setAvailability i Available src))))"

text \<open>A \<^verbatim>\<open>forEach\<close> whose body may throw.\<close>

fun foldE :: "('a \<Rightarrow> 's \<Rightarrow> error + 's) \<Rightarrow> 'a list \<Rightarrow> 's \<Rightarrow> error + 's" where
  "foldE f [] s = Inr s"
| "foldE f (x # xs) s = (case f x s of Inl e \<Rightarrow> Inl e | Inr s' \<Rightarrow> foldE f xs s')"

lemma foldE_cong [fundef_cong]:
  "xs = ys \<Longrightarrow> s = t \<Longrightarrow> (\<And>x u. x \<in> set ys \<Longrightarrow> f x u = g x u) \<Longrightarrow> foldE f xs s = foldE g ys t"
  by (induction ys arbitrary: xs s t) (auto split: sum.splits)

definition newChild :: "IPackage \<Rightarrow> string set \<Rightarrow> string \<Rightarrow> string \<Rightarrow> IPackage" where
  "newChild pack resolved dependency requiredVersion =
     \<lparr> p_type = Package,
       p_name = dependency,
       p_path = path_join [p_path pack, ''node_modules'', dependency],
       p_packageJson = None,
       p_version = None,
       p_requiredVersion = Some requiredVersion,
       p_resolvedAtParent = resolved,
       p_resolvedAtGrandparent = p_resolvedAtParent pack,
       p_children = [],
       p_scriptFiles = [],
       p_nativeFiles = [],
       p_directories = [],
       p_availability = NotInstalled \<rparr>"

text \<open>\<^verbatim>\<open>pack.children.push(child)\<close> for a new object \<open>child\<close>, which gets the next free
  position.\<close>

definition pushChild :: "nat \<Rightarrow> IPackage \<Rightarrow> Source \<Rightarrow> Source" where
  "pushChild parent child src =
     updatePack parent (\<lambda>p. p\<lparr>p_children := p_children p @ [length (packs src)]\<rparr>)
       (src\<lparr>packs := packs src @ [child]\<rparr>)"

text \<open>The dependency names that occur in the manifests of a tree; only the termination
  proof uses them.\<close>

fun manifestNames :: "fsnode \<Rightarrow> string set" where
  "manifestNames (FsFile m l (Manifest j)) = fst ` set (json_dependencies j)"
| "manifestNames (FsFile m l c) = {}"
| "manifestNames (FsDir m l es) = (\<Union>n \<in> snd ` set es. manifestNames n)"

text \<open>
  \<^verbatim>\<open>selectDependencyPackages(pack)\<close>.  \<open>pack\<close> is the object as its creator made it (its
  type, name, path and \<^verbatim>\<open>resolvedAt...\<close> sets never change afterwards, except the
  app's name) and \<open>i\<close> its position in the store.
\<close>

function selectDependencyPackages :: "source_env \<Rightarrow> nat \<Rightarrow> IPackage \<Rightarrow> Source \<Rightarrow> error + Source" where
  "selectDependencyPackages env i pack src =
     (let packageJsonPath = path_join [projectPath env, p_path pack, ''package.json'']
      in if \<not> fs_exists (fsroot env) packageJsonPath then Inr (setAvailability i NotInstalled src)
         else if p_name pack \<in> p_resolvedAtGrandparent pack then
           Inr (setAvailability i ShadowedByAncestor src)
         else
           (case readJson (fsroot env) packageJsonPath of
              Inl e \<Rightarrow> Inl e
            | Inr json \<Rightarrow>
                (case resolveConflicts env i pack json
                        (updatePack i (\<lambda>p. p\<lparr>p_packageJson := Some json,
                                                 p_version := json_version json\<rparr>) src) of
                   Inl e \<Rightarrow> Inl e
                 | Inr src1 \<Rightarrow>
                     foldE (\<lambda>dep s.
                              let child = newChild pack
                                    (p_resolvedAtParent pack \<union> fst ` set (json_dependencies json))
                                    (fst dep) (snd dep)
                              in selectDependencyPackages env (length (packs s)) child
                                   (pushChild i child s))
                       (json_dependencies json) src1)))"
  by pat_completeness auto

lemma finite_manifestNames: "finite (manifestNames n)"
  by (induction n rule: manifestNames.induct) auto

lemma lookupSegs_names:
  "lookupSegs n ss = Some n' \<Longrightarrow> manifestNames n' \<subseteq> manifestNames n"
proof (induction n ss rule: lookupSegs.induct)
  case (3 m l es s ss)
  then obtain c where c: "map_of es s = Some c" "lookupSegs c ss = Some n'"
    by (auto split: option.splits)
  with 3 have "manifestNames n' \<subseteq> manifestNames c" by simp
  moreover from c(1) have "c \<in> snd ` set es"
    by (metis map_of_SomeD snd_conv image_eqI)
  ultimately show ?case by auto
qed auto

lemma readJson_names:
  "readJson root p = Inr j \<Longrightarrow> fst ` set (json_dependencies j) \<subseteq> manifestNames root"
proof -
  assume a: "readJson root p = Inr j"
  then obtain m l where "lookupSegs root (segments p) = Some (FsFile m l (Manifest j))"
    unfolding readJson_def fs_lookup_def
    by (auto split: option.splits fsnode.splits content.splits if_splits)
  from lookupSegs_names[OF this] show ?thesis by simp
qed

text \<open>
  The recursion ends because a package that gets past the ancestor test has a name that
  its parent's \<^verbatim>\<open>resolved\<close> set holds, so along a branch the sets grow until the names
  in the tree's manifests are used up.
\<close>

termination selectDependencyPackages
proof (relation "measure (\<lambda>(env, i, pack, src).
          2 * card (manifestNames (fsroot env) - p_resolvedAtParent pack)
          + (if p_name pack \<in> p_resolvedAtGrandparent pack then 0 else 1))", goal_cases)
  case 1
  show ?case by simp
next
  case (2 env i pack src packageJsonPath json src1 dep s child)
  let ?A = "manifestNames (fsroot env)"
  let ?K = "fst ` set (json_dependencies json)"
  let ?R = "p_resolvedAtParent pack"
  from 2 have K: "?K \<subseteq> ?A" by (auto dest!: readJson_names)
  from 2 have d: "fst dep \<in> ?K" by auto
  from 2 have notin: "p_name pack \<notin> p_resolvedAtGrandparent pack" by simp
  show ?case
  proof (cases "fst dep \<in> ?R")
    case True
    have "card (?A - (?R \<union> ?K)) \<le> card (?A - ?R)"
      by (rule card_mono) (auto simp: finite_manifestNames)
    with True notin 2 show ?thesis by (simp add: newChild_def)
  next
    case False
    have "?A - (?R \<union> ?K) \<subset> ?A - ?R"
      using False d K by auto
    then have "card (?A - (?R \<union> ?K)) < card (?A - ?R)"
      by (intro psubset_card_mono) (auto simp: finite_manifestNames)
    with notin 2 show ?thesis by (simp add: newChild_def)
  qed
qed

declare selectDependencyPackages.simps [simp del]

definition pushFile :: "nat \<Rightarrow> IFile \<Rightarrow> Source \<Rightarrow> Source" where
  "pushFile i f = updatePack i (\<lambda>p. p\<lparr>p_scriptFiles := p_scriptFiles p @ [f]\<rparr>)"

definition pushDirectory :: "nat \<Rightarrow> string \<Rightarrow> Source \<Rightarrow> Source" where
  "pushDirectory i d = updatePack i (\<lambda>p. p\<lparr>p_directories := p_directories p @ [d]\<rparr>)"

definition newNested :: "IPackage \<Rightarrow> string \<Rightarrow> IJson \<Rightarrow> IPackage" where
  "newNested pack path packageJson =
     \<lparr> p_type = Nested,
       p_name = substr path (length (p_path pack) + length sep),
       p_path = path,
       p_packageJson = Some packageJson,
       p_version = None,
       p_requiredVersion = None,
       p_resolvedAtParent = {},
       p_resolvedAtGrandparent = {},
       p_children = [],
       p_scriptFiles = [],
       p_nativeFiles = [],
       p_directories = [],
       p_availability = Available \<rparr>"

text \<open>
  \<^verbatim>\<open>listNestedPackageFiles(pack, dir, fileScope)\<close>, as the loop over the entries of
  \<open>dir\<close>: an entry is a name with the node that \<^verbatim>\<open>getFsStats\<close> and \<^verbatim>\<open>readDirectory\<close>
  find under it.  \<open>pack\<close> and \<open>fileScope\<close> are positions in the store.
\<close>

function listNestedPackageFiles ::
  "source_env \<Rightarrow> nat \<Rightarrow> string \<Rightarrow> nat \<Rightarrow> (string \<times> fsnode) list \<Rightarrow> Source \<Rightarrow> error + Source" where
  "listNestedPackageFiles env pack dir fileScope [] src = Inr src"
| "listNestedPackageFiles env pack dir fileScope ((name, node) # rest) src =
     (case p_packageJson (packs src ! pack) of
        None \<Rightarrow> Inl TypeError
      | Some json \<Rightarrow>
          let packPath = p_path (packs src ! pack);
              modulePackageJson = packPath @ sep @ ''package.json'';
              ignorePaths = [packPath @ sep @ ''node_modules'']
                 @ (if json_nativescript json \<noteq> None then [packPath @ sep @ ''platforms''] else []);
              scopePathLength = length (p_path (packs src ! fileScope)) + length sep;
              path = dir @ sep @ name;
              absolutePath = path_join [projectPath env, path]
          in if path \<in> set ignorePaths then listNestedPackageFiles env pack dir fileScope rest src
             else
               (case node of
                  FsDir m l es \<Rightarrow>
                    let packageJsonPath = path @ sep @ ''package.json''
                    in if modulePackageJson \<noteq> packageJsonPath
                          \<and> fs_exists (fsroot env) (path_join [projectPath env, packageJsonPath])
                       then
                         (case readJson (fsroot env) (path_join [projectPath env, packageJsonPath]) of
                            Inl e \<Rightarrow> Inl e
                          | Inr packageJson \<Rightarrow>
                              let nestedPackage = newNested (packs src ! pack) path packageJson;
                                  n = length (packs src);
                                  src1 = pushChild pack nestedPackage src;
                                  src2 = (if inDependencies (p_name nestedPackage) src1
                                          then setAvailability pack ShadowedByDiverged src1
                                          else setDependency (p_name nestedPackage) n src1)
                              in (case listNestedPackageFiles env pack path n es src2 of
                                    Inl e \<Rightarrow> Inl e
                                  | Inr src3 \<Rightarrow> listNestedPackageFiles env pack dir fileScope rest src3))
                       else
                         (case listNestedPackageFiles env pack path fileScope es
                                 (pushDirectory fileScope (substr path scopePathLength) src) of
                            Inl e \<Rightarrow> Inl e
                          | Inr src2 \<Rightarrow> listNestedPackageFiles env pack dir fileScope rest src2)
                | FsFile m l c \<Rightarrow>
                    listNestedPackageFiles env pack dir fileScope rest
                      (pushFile fileScope
                         \<lparr> f_path = substr path scopePathLength, f_absolutePath = absolutePath,
                           f_name = name, f_extension = extname name, f_mtime = m \<rparr> src)))"
  by pat_completeness auto
termination
  by (relation "measure (\<lambda>(env, pack, dir, fileScope, es, src).
        size_list (size_prod (\<lambda>x. 0) size) es)") auto

declare listNestedPackageFiles.simps [simp del]

text \<open>A \<^verbatim>\<open>forEach\<close> whose body may throw or not return.\<close>

fun foldC :: "('a \<Rightarrow> 's \<Rightarrow> (error + 's) option) \<Rightarrow> 'a list \<Rightarrow> 's \<Rightarrow> (error + 's) option" where
  "foldC f [] s = Some (Inr s)"
| "foldC f (x # xs) s =
     (case f x s of None \<Rightarrow> None | Some (Inl e) \<Rightarrow> Some (Inl e) | Some (Inr s') \<Rightarrow> foldC f xs s')"

text \<open>
  \<^verbatim>\<open>listDependencyScriptFiles(pack)\<close> follows \<^verbatim>\<open>children\<close> through the store.  The first
  argument bounds the depth of the walk; \<open>None\<close> says the bound was used up.
\<close>

fun listDependencyScriptFiles :: "nat \<Rightarrow> source_env \<Rightarrow> nat \<Rightarrow> Source \<Rightarrow> (error + Source) option" where
  "listDependencyScriptFiles 0 env pack src = None"
| "listDependencyScriptFiles (Suc fuel) env pack src =
     (case (if p_type (packs src ! pack) = Package \<and> p_availability (packs src ! pack) = Available
            then (case readDirectory (fsroot env)
                         (path_join [projectPath env, p_path (packs src ! pack)]) of
                    Inl e \<Rightarrow> Inl e
                  | Inr es \<Rightarrow> listNestedPackageFiles env pack (p_path (packs src ! pack)) pack es src)
            else Inr src) of
        Inl e \<Rightarrow> Some (Inl e)
      | Inr src1 \<Rightarrow>
          foldC (\<lambda>child s. listDependencyScriptFiles fuel env child s)
            (p_children (packs src1 ! pack)) src1)"

definition theApp :: IPackage where
  "theApp =
     \<lparr> p_type = App, p_name = ''.'', p_path = ''.'', p_packageJson = None,
       p_version = None, p_requiredVersion = Some ''*'',
       p_resolvedAtParent = {}, p_resolvedAtGrandparent = {},
       p_children = [], p_scriptFiles = [], p_nativeFiles = [], p_directories = [],
       p_availability = Available \<rparr>"

text \<open>\<^verbatim>\<open>listNativePlatformFilesInPackage(pack, platform, dir)\<close>, over the entries of \<open>dir\<close>;
  the files found are appended to \<open>acc\<close>.\<close>

fun listNativePlatformFilesInPackage ::
  "source_env \<Rightarrow> string \<Rightarrow> string \<Rightarrow> (string \<times> fsnode) list \<Rightarrow> IFile list \<Rightarrow> IFile list" where
  "listNativePlatformFilesInPackage env packPath dir [] acc = acc"
| "listNativePlatformFilesInPackage env packPath dir ((name, FsFile m l c) # rest) acc =
     listNativePlatformFilesInPackage env packPath dir rest
       (acc @ [\<lparr> f_path = dir @ sep @ name,
                 f_absolutePath = path_join [projectPath env, packPath, dir, name],
                 f_name = name, f_extension = extname name, f_mtime = m \<rparr>])"
| "listNativePlatformFilesInPackage env packPath dir ((name, FsDir m l es) # rest) acc =
     listNativePlatformFilesInPackage env packPath dir rest
       (listNativePlatformFilesInPackage env packPath (dir @ sep @ name) es acc)"

definition listNativeFilesInPackage :: "source_env \<Rightarrow> nat \<Rightarrow> Source \<Rightarrow> error + Source" where
  "listNativeFilesInPackage env pack src =
     (case p_packageJson (packs src ! pack) of
        None \<Rightarrow> Inl TypeError
      | Some json \<Rightarrow>
          (case json_nativescript json of
             None \<Rightarrow> Inr src
           | Some ns \<Rightarrow>
               (case ns_platforms ns of
                  None \<Rightarrow> Inr src
                | Some pls \<Rightarrow>
                    foldE (\<lambda>platform s.
                        let packPath = p_path (packs s ! pack);
                            platformDir = path_join [projectPath env, packPath, ''platforms'', platform]
                        in if fs_exists (fsroot env) platformDir then
                             (case readDirectory (fsroot env)
                                     (projectPath env @ sep @ packPath @ sep
                                        @ path_join [''platforms'', platform]) of
                                Inl e \<Rightarrow> Inl e
                              | Inr es \<Rightarrow>
                                  Inr (updatePack pack (\<lambda>p. p\<lparr>p_nativeFiles :=
                                         AList.update platform
                                           (listNativePlatformFilesInPackage env packPath
                                              (path_join [''platforms'', platform]) es [])
                                           (p_nativeFiles p)\<rparr>) s))
                           else Inr s)
                      (map fst pls) src)))"

definition listDependencyNativeFiles :: "source_env \<Rightarrow> Source \<Rightarrow> error + Source" where
  "listDependencyNativeFiles env src =
     foldE (\<lambda>key s.
        (case map_of (dependencies s) key of
           None \<Rightarrow> Inr s
         | Some pack \<Rightarrow> listNativeFilesInPackage env pack s))
       (forInKeys (dependencies src)) src"

text \<open>\<^verbatim>\<open>listAppFiles(dir)\<close> inside \<^verbatim>\<open>listAppScriptFiles\<close>, over the entries of \<open>dir\<close>.\<close>

fun listAppFiles :: "source_env \<Rightarrow> string \<Rightarrow> (string \<times> fsnode) list \<Rightarrow> Source \<Rightarrow> Source" where
  "listAppFiles env dir [] src = src"
| "listAppFiles env dir ((name, FsFile m l c) # rest) src =
     (let path = dir @ sep @ name
      in if path = ''app'' @ sep @ ''App_Resources'' then listAppFiles env dir rest src
         else listAppFiles env dir rest
                (pushFile 0 \<lparr> f_path = path, f_absolutePath = path_join [projectPath env, path],
                              f_name = name, f_extension = extname name, f_mtime = m \<rparr> src))"
| "listAppFiles env dir ((name, FsDir m l es) # rest) src =
     (let path = dir @ sep @ name
      in if path = ''app'' @ sep @ ''App_Resources'' then listAppFiles env dir rest src
         else listAppFiles env dir rest
                (listAppFiles env path es (pushDirectory 0 (path @ sep) src)))"

definition listAppScriptFiles :: "source_env \<Rightarrow> Source \<Rightarrow> error + Source" where
  "listAppScriptFiles env src =
     (if fs_exists (fsroot env) (path_join [projectPath env, ''app'']) then
        (case readDirectory (fsroot env) (path_join [projectPath env, ''app'']) of
           Inl e \<Rightarrow> Inl e
         | Inr es \<Rightarrow> Inr (listAppFiles env ''app'' es (pushDirectory 0 ''app/'' src)))
      else Inr src)"

text \<open>\<^verbatim>\<open>listAppNativeFilesForPlatform\<close> reads the directory under its relative name,
  which the file system resolves from the working directory of the process, and the
  entries under the project path.\<close>

definition listAppNativeFilesForPlatform ::
  "source_env \<Rightarrow> string \<Rightarrow> string \<Rightarrow> Source \<Rightarrow> error + Source" where
  "listAppNativeFilesForPlatform env platform dir src =
     (case readDirectory (fsroot env) (path_join [cwd env, dir]) of
        Inl e \<Rightarrow> Inl e
      | Inr es \<Rightarrow>
          foldE (\<lambda>name s.
              (case fs_lookup (fsroot env) (projectPath env @ sep @ dir @ sep @ name) of
                 None \<Rightarrow> Inl IOError
               | Some node \<Rightarrow>
                   Inr (updatePack 0 (\<lambda>p. p\<lparr>p_nativeFiles :=
                          AList.update platform
                            ((case map_of (p_nativeFiles p) platform of None \<Rightarrow> [] | Some fs \<Rightarrow> fs)
                               @ [\<lparr> f_path = dir @ sep @ name,
                                     f_absolutePath = projectPath env @ sep @ dir @ sep @ name,
                                     f_name = name, f_extension = extname name,
                                     f_mtime = mtime_of node \<rparr>])
                            (p_nativeFiles p)\<rparr>) s)))
            (map fst es) src)"

definition listAppNativeFiles :: "source_env \<Rightarrow> Source \<Rightarrow> error + Source" where
  "listAppNativeFiles env src =
     foldE (\<lambda>platform s.
        let platformDir = path_join [path_join [''app'', ''App_Resources''], platform]
        in if fs_exists (fsroot env) (path_join [projectPath env, platformDir]) then
             listAppNativeFilesForPlatform env platform platformDir
               (updatePack 0 (\<lambda>p. p\<lparr>p_nativeFiles := AList.update platform [] (p_nativeFiles p)\<rparr>) s)
           else Inr s)
       (platforms env) src"

text \<open>The first two steps of the constructor: the packages, then their script files.\<close>

definition readDependencies :: "source_env \<Rightarrow> (error + Source) option" where
  "readDependencies env =
     (case selectDependencyPackages env 0 theApp \<lparr> packs = [theApp], dependencies = [] \<rparr> of
        Inl e \<Rightarrow> Some (Inl e)
      | Inr src \<Rightarrow> listDependencyScriptFiles (Suc (length (packs src))) env 0 src)"

text \<open>The constructor of \<^verbatim>\<open>Source\<close>.\<close>

definition newSource :: "source_env \<Rightarrow> (error + Source) option" where
  "newSource env =
     (case readDependencies env of
        None \<Rightarrow> None
      | Some (Inl e) \<Rightarrow> Some (Inl e)
      | Some (Inr src1) \<Rightarrow>
          (case listDependencyNativeFiles env src1 of
             Inl e \<Rightarrow> Some (Inl e)
           | Inr src2 \<Rightarrow>
               (case listAppScriptFiles env src2 of
                  Inl e \<Rightarrow> Some (Inl e)
                | Inr src3 \<Rightarrow> Some (listAppNativeFiles env src3))))"

section \<open>Project.Target\<close>

text \<open>
  A delta holds four JavaScript objects used as a map and three sets.  They are kept
  as lists of distinct keys in insertion order, which is the order \<^verbatim>\<open>Object.keys\<close>
  returns for keys that are paths.
\<close>

record IOutPaths =
  out_app :: string
  out_modules :: string
  out_root :: string

record IDelta =
  d_copy :: "(string \<times> IFile) list"
  d_mkdir :: "string list"
  d_rmfile :: "string list"
  d_rmdir :: "string list"

record IProjectBuildResult =
  changedNativeProject :: bool
  changedScripts :: bool

text \<open>\<^verbatim>\<open>set[k] = true\<close> and \<^verbatim>\<open>delete set[k]\<close>.\<close>

definition addKey :: "string \<Rightarrow> string list \<Rightarrow> string list" where
  "addKey k ks = (if k \<in> set ks then ks else ks @ [k])"

definition deleteKey :: "string \<Rightarrow> string list \<Rightarrow> string list" where
  "deleteKey k ks = removeAll k ks"

text \<open>\<^verbatim>\<open>utils.path.basedirs\<close>; the first argument is the accumulated \<^verbatim>\<open>path\<close>.\<close>

fun basedirsFrom :: "string \<Rightarrow> string list \<Rightarrow> string list" where
  "basedirsFrom path [] = []"
| "basedirsFrom path (f # fs) = (path @ f @ sep) # basedirsFrom (path @ f @ sep) fs"

definition basedirs :: "string \<Rightarrow> string list" where
  "basedirs dir = basedirsFrom [] (splitOn CHR ''/'' dir)"

definition mkdirAllOf :: "string list \<Rightarrow> IDelta \<Rightarrow> IDelta" where
  "mkdirAllOf dirs delta = foldl (\<lambda>d dir. d\<lparr>d_mkdir := addKey dir (d_mkdir d)\<rparr>) delta dirs"

definition mkdirRecursive :: "string \<Rightarrow> IDelta \<Rightarrow> IDelta" where
  "mkdirRecursive baseDir delta = mkdirAllOf (basedirs baseDir) delta"

text \<open>\<^verbatim>\<open>mapPath\<close>; \<open>None\<close> is its \<^verbatim>\<open>null\<close>.\<close>

definition mapPath :: "IOutPaths \<Rightarrow> string \<Rightarrow> string option" where
  "mapPath output path =
     (let relativePath = substr path (length (''app'' @ sep))
      in if length relativePath > 0 then Some (out_app output @ sep @ relativePath) else None)"

definition platformSuffixFilter :: "string list \<Rightarrow> string \<Rightarrow> string list" where
  "platformSuffixFilter pls platform =
     map (\<lambda>p. ''.'' @ p @ ''.'') (filter (\<lambda>p. p \<noteq> platform) pls)"

text \<open>The target path \<^verbatim>\<open>to\<close> that \<^verbatim>\<open>copyAll\<close> computes for a file of a package.\<close>

definition copyTarget :: "string \<Rightarrow> IOutPaths \<Rightarrow> IPackage \<Rightarrow> IFile \<Rightarrow> string" where
  "copyTarget platform output pack file =
     out_modules output @ sep @ p_name pack @ sep
       @ replaceStr (f_path file) (''.'' @ platform @ ''.'') ''.''"

definition excludedFile :: "string list \<Rightarrow> string \<Rightarrow> IFile \<Rightarrow> bool" where
  "excludedFile pls platform file =
     list_ex (\<lambda>f. containsStr (f_name file) f) (platformSuffixFilter pls platform)"

definition copyAll :: "string list \<Rightarrow> string \<Rightarrow> IOutPaths \<Rightarrow> IPackage \<Rightarrow> IDelta \<Rightarrow> IDelta" where
  "copyAll pls platform output pack delta =
     foldl (\<lambda>d file.
              if excludedFile pls platform file then d
              else d\<lparr>d_copy := AList.update (copyTarget platform output pack file) file (d_copy d)\<rparr>)
       delta (p_scriptFiles pack)"

definition mkdirAll :: "IOutPaths \<Rightarrow> IPackage \<Rightarrow> IDelta \<Rightarrow> IDelta" where
  "mkdirAll output pack delta =
     (if p_type pack = App then delta
      else
        mkdirAllOf (map (\<lambda>dir. out_modules output @ sep @ p_name pack @ sep @ dir @ sep)
                      (p_directories pack))
          (mkdirAllOf (basedirsFrom (out_modules output @ sep) (splitOn CHR ''/'' (p_name pack)))
             delta))"

text \<open>The key under which an app file is stored: \<^verbatim>\<open>delta.copy[null]\<close> is the key
  \<^verbatim>\<open>"null"\<close>.\<close>

definition copyKey :: "string option \<Rightarrow> string" where
  "copyKey k = (case k of None \<Rightarrow> ''null'' | Some p \<Rightarrow> p)"

definition buildDelta :: "string list \<Rightarrow> string \<Rightarrow> IOutPaths \<Rightarrow> Source \<Rightarrow> IDelta" where
  "buildDelta pls platform output src =
     (let delta0 = \<lparr> d_copy = [], d_mkdir = [], d_rmfile = [], d_rmdir = [] \<rparr>;
          delta1 = mkdirRecursive (out_modules output) (mkdirRecursive (out_app output) delta0);
          delta2 = mkdirAllOf
                     (map the (filter (\<lambda>f. f \<noteq> None)
                        (map (mapPath output) (p_directories (packs src ! 0)))))
                     delta1;
          delta3 = foldl (\<lambda>d file.
                       d\<lparr>d_copy := AList.update (copyKey (mapPath output (f_path file))) file (d_copy d)\<rparr>)
                     delta2 (p_scriptFiles (packs src ! 0))
      in foldl (\<lambda>d key.
                  (case map_of (dependencies src) key of
                     None \<Rightarrow> d
                   | Some pack \<Rightarrow>
                       mkdirAll output (packs src ! pack)
                         (copyAll pls platform output (packs src ! pack) d)))
           delta3 (forInKeys (dependencies src)))"

text \<open>
  \<^verbatim>\<open>diff(filePath)\<close> inside \<^verbatim>\<open>rebuildDelta\<close>; the node is what \<^verbatim>\<open>getFsStats\<close> and
  \<^verbatim>\<open>readDirectory\<close> find at \<open>filePath\<close> under the project path.  The state is the delta
  and the \<^verbatim>\<open>diffed\<close> set.
\<close>

fun diff :: "string \<Rightarrow> fsnode \<Rightarrow> IDelta \<times> string list \<Rightarrow> IDelta \<times> string list" where
  "diff filePath (FsDir m l es) (delta, diffed) =
     (if filePath \<in> set diffed then (delta, diffed)
      else
        let dirPath = filePath @ sep;
            delta1 = (if dirPath \<in> set (d_mkdir delta)
                      then delta\<lparr>d_mkdir := deleteKey dirPath (d_mkdir delta)\<rparr>
                      else delta\<lparr>d_rmdir := addKey dirPath (d_rmdir delta)\<rparr>)
        in fold (\<lambda>e st. diff (dirPath @ fst e) (snd e) st) es (delta1, addKey filePath diffed))"
| "diff filePath (FsFile m l c) (delta, diffed) =
     (if filePath \<in> set diffed then (delta, diffed)
      else
        (case map_of (d_copy delta) filePath of
           Some source \<Rightarrow>
             (let newer = (m < f_mtime source)
              in if \<not> newer then (delta\<lparr>d_copy := AList.delete filePath (d_copy delta)\<rparr>,
                                    addKey filePath diffed)
                 else (delta, addKey filePath diffed))
         | None \<Rightarrow> (delta\<lparr>d_rmfile := addKey filePath (d_rmfile delta)\<rparr>, addKey filePath diffed)))"

definition diffIfExists :: "string \<Rightarrow> fsnode \<Rightarrow> string \<Rightarrow> IDelta \<times> string list \<Rightarrow> IDelta \<times> string list" where
  "diffIfExists pp fs filePath st =
     (case fs_lookup fs (path_join [pp, filePath]) of
        None \<Rightarrow> st
      | Some node \<Rightarrow> diff filePath node st)"

definition dropExistingBasedirs :: "string \<Rightarrow> fsnode \<Rightarrow> string \<Rightarrow> IDelta \<Rightarrow> IDelta" where
  "dropExistingBasedirs pp fs baseDir delta =
     foldl (\<lambda>d dir. d\<lparr>d_mkdir := deleteKey dir (d_mkdir d)\<rparr>) delta
       (filter (\<lambda>dir. fs_exists fs (path_join [pp, dir]) \<and> dir \<in> set (d_mkdir delta))
          (basedirs baseDir))"

definition rebuildDelta ::
  "string list \<Rightarrow> string \<Rightarrow> IOutPaths \<Rightarrow> string \<Rightarrow> fsnode \<Rightarrow> Source \<Rightarrow> IDelta" where
  "rebuildDelta pls platform output pp fs src =
     (let buildDelta = buildDelta pls platform output src;
          delta = \<lparr> d_copy = d_copy buildDelta, d_mkdir = d_mkdir buildDelta,
                    d_rmfile = [], d_rmdir = [] \<rparr>;
          st1 = diffIfExists pp fs (out_app output) (delta, []);
          st2 = (dropExistingBasedirs pp fs (out_app output) (fst st1), snd st1);
          st3 = diffIfExists pp fs (out_modules output) st2
      in dropExistingBasedirs pp fs (out_modules output) (fst st3))"

text \<open>
  The writing half of \<^verbatim>\<open>IFileSystem\<close> is not part of the sources; the model takes the
  three operations whose end the code waits for as a parameter.
\<close>

record fs_ops =
  createDirectory :: "string \<Rightarrow> fsnode \<Rightarrow> error + fsnode"
  copyFile :: "string \<Rightarrow> string \<Rightarrow> fsnode \<Rightarrow> error + fsnode"
  writeFile :: "string \<Rightarrow> string \<Rightarrow> fsnode \<Rightarrow> error + fsnode"

text \<open>
  \<^verbatim>\<open>deleteFile\<close> and \<^verbatim>\<open>deleteDirectory\<close> return a future, and \<^verbatim>\<open>applyDelta\<close> never calls
  \<^verbatim>\<open>wait()\<close> on it: the deletion is started, and nothing in the code waits for its end
  or looks at its result.  The model keeps the calls that were started, in the order
  they were started, each with the path it was given.
\<close>

datatype started_call =
    DeleteFile string
  | DeleteDirectory string

text \<open>
  What \<^verbatim>\<open>applyDelta\<close> leaves when it returns: the file system after the calls it waited
  for, the deletions it started, and \<^verbatim>\<open>changedScripts\<close>.
\<close>

record apply_outcome =
  ap_fs :: fsnode
  ap_started :: "started_call list"
  ap_changedScripts :: bool

definition applyDelta :: "fs_ops \<Rightarrow> string \<Rightarrow> IDelta \<Rightarrow> fsnode \<Rightarrow> error + apply_outcome" where
  "applyDelta ops pp delta fs =
     (let mkdir = sort (d_mkdir delta);
          copy = map fst (d_copy delta);
          rmfile = d_rmfile delta;
          rmdir = rev (sort (d_rmdir delta))
      in case foldE (\<lambda>dir. createDirectory ops (path_join [pp, dir])) mkdir fs of
           Inl e \<Rightarrow> Inl e
         | Inr fs1 \<Rightarrow>
             (case foldE (\<lambda>to. copyFile ops
                                 (case map_of (d_copy delta) to of
                                    Some from \<Rightarrow> f_absolutePath from | None \<Rightarrow> [])
                                 (path_join [pp, to])) copy fs1 of
                Inl e \<Rightarrow> Inl e
              | Inr fs2 \<Rightarrow>
                  Inr \<lparr> ap_fs = fs2,
                        ap_started = map (\<lambda>file. DeleteFile (path_join [pp, file])) rmfile
                                     @ map (\<lambda>dir. DeleteDirectory (path_join [pp, dir])) rmdir,
                        ap_changedScripts = (length copy > 0 \<or> length rmfile > 0) \<rparr>))"

definition hasNewerNativeFiles :: "string \<Rightarrow> int \<Rightarrow> IPackage \<Rightarrow> bool" where
  "hasNewerNativeFiles platform outputProjectMtime pack =
     (case map_of (p_nativeFiles pack) platform of
        None \<Rightarrow> False
      | Some nativeFiles \<Rightarrow> list_ex (\<lambda>file. f_mtime file > outputProjectMtime) nativeFiles)"

text \<open>
  \<^verbatim>\<open>Target.rebuild\<close>: the new file system and the target's \<^verbatim>\<open>projectBuildResult\<close>.
  \<open>date\<close> is \<^verbatim>\<open>new Date().toString()\<close>.  The file system is the one the calls that were
  waited for leave; \<^verbatim>\<open>rebuild\<close> keeps no handle on the deletions \<^verbatim>\<open>applyDelta\<close> started.
\<close>

definition Target_rebuild ::
  "fs_ops \<Rightarrow> string \<Rightarrow> string list \<Rightarrow> string \<Rightarrow> IOutPaths \<Rightarrow> string \<Rightarrow> Source \<Rightarrow> fsnode
     \<Rightarrow> error + fsnode \<times> IProjectBuildResult" where
  "Target_rebuild ops date pls platform output pp src fs =
     (let delta = rebuildDelta pls platform output pp fs src
      in case applyDelta ops pp delta fs of
           Inl e \<Rightarrow> Inl e
         | Inr applied \<Rightarrow>
             let fs1 = ap_fs applied;
                 scripts = ap_changedScripts applied;
                 projectAbsolutePath = path_join [pp, out_root output, ''project''];
                 hasNativeChanges =
                   (case fs_lookup fs1 projectAbsolutePath of
                      Some node \<Rightarrow>
                        list_ex (\<lambda>dep. case map_of (dependencies src) dep of
                                         None \<Rightarrow> False
                                       | Some pack \<Rightarrow>
                                           hasNewerNativeFiles platform (mtime_of node) (packs src ! pack))
                          (forInKeys (dependencies src))
                        \<or> hasNewerNativeFiles platform (mtime_of node) (packs src ! 0)
                    | None \<Rightarrow> True)
             in case writeFile ops projectAbsolutePath (''Last build: '' @ date) fs1 of
                  Inl e \<Rightarrow> Inl e
                | Inr fs2 \<Rightarrow>
                    Inr (fs2, \<lparr> changedNativeProject = hasNativeChanges, changedScripts = scripts \<rparr>))"

definition IOS_output :: "string \<Rightarrow> IOutPaths" where
  "IOS_output pp =
     \<lparr> out_app = path_join [''platforms'', ''ios'', basename pp, ''app''],
       out_modules = path_join [''platforms'', ''ios'', basename pp, ''app'', ''tns_modules''],
       out_root = path_join [''platforms'', ''ios''] \<rparr>"

definition Android_output :: IOutPaths where
  "Android_output =
     \<lparr> out_app = path_join [''platforms'', ''android'', ''src'', ''main'', ''assets'', ''app''],
       out_modules = path_join [''platforms'', ''android'', ''src'', ''main'', ''assets'', ''app'',
                                ''tns_modules''],
       out_root = path_join [''platforms'', ''android''] \<rparr>"


section \<open>Project.rebuild\<close>

text \<open>
  What a call of \<^verbatim>\<open>Project.rebuild(platform)\<close> leaves: the \<^verbatim>\<open>projectBuildResult\<close> of the
  two targets, the value returned (\<open>None\<close> for \<^verbatim>\<open>undefined\<close>), and the file system.
\<close>

record rebuild_outcome =
  rb_ios :: IProjectBuildResult
  rb_android :: IProjectBuildResult
  rb_returned :: "IProjectBuildResult option"
  rb_fs :: fsnode

definition initialBuildResult :: IProjectBuildResult where
  "initialBuildResult = \<lparr> changedNativeProject = False, changedScripts = False \<rparr>"

definition Project_rebuild ::
  "fs_ops \<Rightarrow> string \<Rightarrow> source_env \<Rightarrow> string \<Rightarrow> (error + rebuild_outcome) option" where
  "Project_rebuild ops date env platform =
     (case newSource (env\<lparr>platforms := [''ios'', ''android'']\<rparr>) of
        None \<Rightarrow> None
      | Some (Inl e) \<Rightarrow> Some (Inl e)
      | Some (Inr source) \<Rightarrow>
          let ios = initialBuildResult;
              android = initialBuildResult
          in (case (if platform = ''ios'' then
                      (case Target_rebuild ops date [''ios'', ''android''] ''ios''
                              (IOS_output (projectPath env)) (projectPath env) source (fsroot env) of
                         Inl e \<Rightarrow> Inl e
                       | Inr (fs', r) \<Rightarrow> Inr (fs', r, android, Some r))
                    else if platform = ''android'' then
                      (case Target_rebuild ops date [''ios'', ''android''] ''android''
                              Android_output (projectPath env) source (fsroot env) of
                         Inl e \<Rightarrow> Inl e
                       | Inr (fs', r) \<Rightarrow> Inr (fs', ios, r, Some r))
                    else Inr (fsroot env, ios, android, None)) of
                Inl e \<Rightarrow> Some (Inl e)
              | Inr (fs', ios', android', projectBuildResult) \<Rightarrow>
                  Some (Inr \<lparr> rb_ios = ios', rb_android = android',
                              rb_returned = Some ios', rb_fs = fs' \<rparr>)))"

text \<open>
  Modelled from the spec: the FileStore's create directory, copy and write text, which
  are not in the sources and of which the spec gives the names only.  In this instance
  a directory is created under an existing parent (one that is there already is
  kept), and a copy or a write makes or replaces a file under an existing parent; the
  new file carries the time \<open>now\<close>.
\<close>

fun updateSegs ::
  "string list \<Rightarrow> (fsnode option \<Rightarrow> error + fsnode) \<Rightarrow> fsnode \<Rightarrow> error + fsnode" where
  "updateSegs [] f n = Inl IOError"
| "updateSegs (s # ss) f (FsFile m l c) = Inl IOError"
| "updateSegs [s] f (FsDir m l es) =
     (case f (map_of es s) of
        Inl e \<Rightarrow> Inl e
      | Inr n' \<Rightarrow> Inr (FsDir m l (AList.update s n' es)))"
| "updateSegs (s # t # ss) f (FsDir m l es) =
     (case map_of es s of
        None \<Rightarrow> Inl IOError
      | Some c \<Rightarrow>
          (case updateSegs (t # ss) f c of
             Inl e \<Rightarrow> Inl e
           | Inr c' \<Rightarrow> Inr (FsDir m l (AList.update s c' es))))"

definition simpleOps :: "int \<Rightarrow> fs_ops" where
  "simpleOps now =
     \<lparr> createDirectory = (\<lambda>p. updateSegs (segments p)
          (\<lambda>e. case e of
                  None \<Rightarrow> Inr (FsDir now now [])
                | Some (FsDir m l es) \<Rightarrow> Inr (FsDir m l es)
                | Some (FsFile m l c) \<Rightarrow> Inl IOError)),
       copyFile = (\<lambda>from to fs.
          case fs_lookup fs from of
            Some (FsFile m l c) \<Rightarrow>
              updateSegs (segments to)
                (\<lambda>e. case e of
                        Some (FsDir m' l' es) \<Rightarrow> Inl IOError
                      | _ \<Rightarrow> Inr (FsFile now now c)) fs
          | _ \<Rightarrow> Inl IOError),
       writeFile = (\<lambda>p text. updateSegs (segments p)
          (\<lambda>e. case e of
                  Some (FsDir m l es) \<Rightarrow> Inl IOError
                | _ \<Rightarrow> Inr (FsFile now now (Text text)))) \<rparr>"

text \<open>
  What the claim about \<^verbatim>\<open>copyAll\<close> says in place of \<^verbatim>\<open>replace\<close>: every occurrence of
  \<open>t\<close> in \<open>s\<close> is replaced by \<open>r\<close>, scanning from the left.  The first argument counts
  the characters of an occurrence still to be skipped.
\<close>

fun replaceAllFrom :: "nat \<Rightarrow> string \<Rightarrow> string \<Rightarrow> string \<Rightarrow> string" where
  "replaceAllFrom k [] t r = []"
| "replaceAllFrom (Suc k) (c # cs) t r = replaceAllFrom k cs t r"
| "replaceAllFrom 0 (c # cs) t r =
     (if t \<noteq> [] \<and> startsWith (c # cs) t then r @ replaceAllFrom (length t - 1) cs t r
      else c # replaceAllFrom 0 cs t r)"

definition replaceAllStr :: "string \<Rightarrow> string \<Rightarrow> string \<Rightarrow> string" where
  "replaceAllStr s t r = replaceAllFrom 0 s t r"

text \<open>\<open>t\<close> occurs in \<open>s\<close> at position \<open>i\<close>.\<close>

definition occursAt :: "string \<Rightarrow> string \<Rightarrow> nat \<Rightarrow> bool" where
  "occursAt s t i = (i \<le> length s \<and> startsWith (drop i s) t)"

text \<open>A package with one script file whose name holds the iOS infix twice.\<close>

definition twiceIos :: IFile where
  "twiceIos =
     \<lparr> f_path = ''a.ios.b.ios.js'', f_absolutePath = ''/proj/node_modules/foo/a.ios.b.ios.js'',
       f_name = ''a.ios.b.ios.js'', f_extension = ''.js'', f_mtime = 5 \<rparr>"

definition fooPackage :: IPackage where
  "fooPackage =
     \<lparr> p_type = Package, p_name = ''foo'', p_path = ''node_modules/foo'',
       p_packageJson = None, p_version = Some ''1.0.0'', p_requiredVersion = Some ''*'',
       p_resolvedAtParent = {''foo''}, p_resolvedAtGrandparent = {},
       p_children = [], p_scriptFiles = [twiceIos], p_nativeFiles = [], p_directories = [],
       p_availability = Available \<rparr>"

text \<open>A package with three script files: one for Android only, and two that have the
  same target path on iOS.\<close>

definition bAndroidJs :: IFile where
  "bAndroidJs =
     \<lparr> f_path = ''c.android.js'', f_absolutePath = ''/proj/node_modules/bar/c.android.js'',
       f_name = ''c.android.js'', f_extension = ''.js'', f_mtime = 5 \<rparr>"

definition bIosJs :: IFile where
  "bIosJs =
     \<lparr> f_path = ''b.ios.js'', f_absolutePath = ''/proj/node_modules/bar/b.ios.js'',
       f_name = ''b.ios.js'', f_extension = ''.js'', f_mtime = 5 \<rparr>"

definition bJs :: IFile where
  "bJs =
     \<lparr> f_path = ''b.js'', f_absolutePath = ''/proj/node_modules/bar/b.js'',
       f_name = ''b.js'', f_extension = ''.js'', f_mtime = 5 \<rparr>"

definition barPackage :: IPackage where
  "barPackage =
     \<lparr> p_type = Package, p_name = ''bar'', p_path = ''node_modules/bar'',
       p_packageJson = None, p_version = Some ''1.0.0'', p_requiredVersion = Some ''*'',
       p_resolvedAtParent = {''bar''}, p_resolvedAtGrandparent = {},
       p_children = [], p_scriptFiles = [bAndroidJs, bIosJs, bJs], p_nativeFiles = [],
       p_directories = [], p_availability = Available \<rparr>"

definition emptyDelta :: IDelta where
  "emptyDelta = \<lparr> d_copy = [], d_mkdir = [], d_rmfile = [], d_rmdir = [] \<rparr>"


section \<open>Sample projects\<close>

definition manifest :: "string \<Rightarrow> (string \<times> string) list \<Rightarrow> fsnode" where
  "manifest v deps = FsFile 0 0 (Manifest \<lparr> json_name = None, json_version = Some v,
       json_dependencies = deps, json_nativescript = None \<rparr>)"

definition script :: fsnode where
  "script = FsFile 5 5 (Text ''exports.x = 1;'')"

text \<open>Two branches that depend on \<^verbatim>\<open>bar\<close>: \<^verbatim>\<open>a\<close> holds \<^verbatim>\<open>bar@1.1.0\<close> and \<^verbatim>\<open>b\<close> holds
  \<^verbatim>\<open>bar@1.2.0\<close>.\<close>

definition divergedProject :: fsnode where
  "divergedProject = FsDir 0 0 [(''proj'', FsDir 0 0
      [(''package.json'', manifest ''1.0.0'' [(''a'', ''*''), (''b'', ''*'')]),
       (''node_modules'', FsDir 0 0
          [(''a'', FsDir 0 0
             [(''package.json'', manifest ''1.0.0'' [(''bar'', ''*'')]),
              (''node_modules'', FsDir 0 0
                 [(''bar'', FsDir 0 0 [(''package.json'', manifest ''1.1.0'' [])])])]),
           (''b'', FsDir 0 0
             [(''package.json'', manifest ''1.0.0'' [(''bar'', ''*'')]),
              (''node_modules'', FsDir 0 0
                 [(''bar'', FsDir 0 0 [(''package.json'', manifest ''1.2.0'' [])])])])])])]"

definition divergedEnv :: source_env where
  "divergedEnv =
     \<lparr> projectPath = ''/proj'', cwd = ''/proj'', fsroot = divergedProject,
       semver_gt = (\<lambda>v w. Some (v = ''1.2.0'' \<and> w = ''1.1.0'')),
       platforms = [''ios'', ''android''] \<rparr>"


text \<open>
  The state in which \<^verbatim>\<open>selectDependencyPackages\<close> reaches the second \<^verbatim>\<open>bar\<close> (at
  position 2), with the first one (at position 1) in the table.
\<close>

definition olderBar :: IPackage where
  "olderBar =
     \<lparr> p_type = Package, p_name = ''bar'', p_path = ''node_modules/a/node_modules/bar'',
       p_packageJson = Some \<lparr> json_name = None, json_version = Some ''1.1.0'',
                              json_dependencies = [], json_nativescript = None \<rparr>,
       p_version = Some ''1.1.0'', p_requiredVersion = Some ''*'',
       p_resolvedAtParent = {''a'', ''b'', ''bar''}, p_resolvedAtGrandparent = {''a'', ''b''},
       p_children = [], p_scriptFiles = [], p_nativeFiles = [], p_directories = [],
       p_availability = Available \<rparr>"

definition newerBar :: IPackage where
  "newerBar =
     \<lparr> p_type = Package, p_name = ''bar'', p_path = ''node_modules/b/node_modules/bar'',
       p_packageJson = None, p_version = None, p_requiredVersion = Some ''*'',
       p_resolvedAtParent = {''a'', ''b'', ''bar''}, p_resolvedAtGrandparent = {''a'', ''b''},
       p_children = [], p_scriptFiles = [], p_nativeFiles = [], p_directories = [],
       p_availability = NotInstalled \<rparr>"

definition secondBarReached :: Source where
  "secondBarReached = \<lparr> packs = [theApp, olderBar, newerBar], dependencies = [(''bar'', 1)] \<rparr>"

text \<open>A project that depends on \<^verbatim>\<open>bar\<close> and on \<^verbatim>\<open>foo\<close>, where \<^verbatim>\<open>foo\<close> has a
  subdirectory \<^verbatim>\<open>bar\<close> with a \<^verbatim>\<open>package.json\<close> of its own.\<close>

definition nestedCollision :: fsnode where
  "nestedCollision = FsDir 0 0 [(''proj'', FsDir 0 0
      [(''package.json'', manifest ''1.0.0'' [(''bar'', ''*''), (''foo'', ''*'')]),
       (''node_modules'', FsDir 0 0
          [(''bar'', FsDir 0 0 [(''package.json'', manifest ''1.0.0'' []), (''index.js'', script)]),
           (''foo'', FsDir 0 0
              [(''package.json'', manifest ''1.0.0'' []),
               (''bar'', FsDir 0 0 [(''package.json'', manifest ''1.0.0'' []),
                                    (''b.js'', script)])])])])]"

definition nestedEnv :: source_env where
  "nestedEnv =
     \<lparr> projectPath = ''/proj'', cwd = ''/proj'', fsroot = nestedCollision,
       semver_gt = (\<lambda>v w. Some False), platforms = [''ios'', ''android''] \<rparr>"


text \<open>A project with one script and no dependency, never built.\<close>

definition smallProject :: fsnode where
  "smallProject = FsDir 0 0 [(''proj'', FsDir 0 0
      [(''package.json'', manifest ''1.0.0'' []),
       (''app'', FsDir 0 0 [(''main.js'', script)])])]"

definition smallEnv :: source_env where
  "smallEnv =
     \<lparr> projectPath = ''/proj'', cwd = ''/proj'', fsroot = smallProject,
       semver_gt = (\<lambda>v w. Some False), platforms = [''ios'', ''android''] \<rparr>"










section \<open>Properties of fileChangeRequiresBuild\<close>

lemma no_manifest_in_emptyProject:
  "fs_exists emptyProject (path_join [''/proj'', path_join [''.'', ''package.json'']]) = False"
  by (simp add: fs_exists_def fs_lookup_def segments_def path_join_def path_normalize_def
      emptyProject_def)

text \<open>Once the walk has reached \<^verbatim>\<open>.\<close> it stays there: \<^verbatim>\<open>dirname(".")\<close> is \<^verbatim>\<open>.\<close>.\<close>

lemma walkUp_dot_no_result:
  assumes w: "walkUp fs pd f fp = Some y"
  shows "\<not> (fs = emptyProject \<and> pd = ''/proj'' \<and> fp = ''.'')"
proof (rule walkUp.raw_induct
    [where P = "\<lambda>fs pd f fp y. \<not> (fs = emptyProject \<and> pd = ''/proj'' \<and> fp = ''.'')", OF _ w])
  fix walkUp' fs pd f fp y
  assume ih: "\<And>fs pd f fp y. walkUp' fs pd f fp = Some y
                \<Longrightarrow> \<not> (fs = emptyProject \<and> pd = ''/proj'' \<and> fp = ''.'')"
    and step: "(if fp = ''node_modules'' then Some (Inr False)
      else
        let filePath' = dirname fp;
            fullFilePath = path_join [pd, path_join [filePath', ''package.json'']]
        in if fs_exists fs fullFilePath then
             (case readJson fs fullFilePath of
                Inl e \<Rightarrow> Some (Inl e)
              | Inr json \<Rightarrow>
                  if json_nativescript json \<noteq> None
                     \<and> startsWith f (path_join [filePath', ''platforms''])
                  then Some (Inr True)
                  else walkUp' fs pd f filePath')
           else walkUp' fs pd f filePath') = Some y"
  show "\<not> (fs = emptyProject \<and> pd = ''/proj'' \<and> fp = ''.'')"
  proof
    assume a: "fs = emptyProject \<and> pd = ''/proj'' \<and> fp = ''.''"
    have d: "dirname ''.'' = ''.''"
      by (simp add: dirname_def)
    from a step have "walkUp' emptyProject ''/proj'' f ''.'' = Some y"
      by (simp add: d no_manifest_in_emptyProject)
    with ih show False by blast
  qed
qed

lemma walkUp_dot_diverges: "walkUp emptyProject ''/proj'' f ''.'' = None"
  by (cases "walkUp emptyProject ''/proj'' f ''.''") (auto dest: walkUp_dot_no_result)

text \<open>
  C10.  The claim is that \<^verbatim>\<open>fileChangeRequiresBuild\<close> returns a Boolean for every
  path, in particular for a path that starts with the characters \<^verbatim>\<open>node_modules\<close>
  without having \<^verbatim>\<open>node_modules\<close> as its first segment.  On
  \<^verbatim>\<open>node_modules2/a.js\<close> the prefix test lets the path into the loop, the walk goes
  \<^verbatim>\<open>node_modules2\<close>, \<^verbatim>\<open>.\<close>, \<^verbatim>\<open>.\<close>, ... and never meets \<^verbatim>\<open>node_modules\<close>: the call does
  not return.
\<close>

theorem fileChangeRequiresBuild_diverges:
  "fileChangeRequiresBuild ''node_modules2/a.js'' ''/proj'' emptyProject = None"
proof -
  have e1: "fs_exists emptyProject
              (path_join [''/proj'', path_join [''node_modules2'', ''package.json'']]) = False"
    by (simp add: fs_exists_def fs_lookup_def segments_def path_join_def path_normalize_def
        emptyProject_def)
  have d1: "dirname ''node_modules2/a.js'' = ''node_modules2''"
    by (simp add: dirname_def)
  have d2: "dirname ''node_modules2'' = ''.''"
    by (simp add: dirname_def)
  have s1: "walkUp emptyProject ''/proj'' ''node_modules2/a.js'' ''node_modules2/a.js''
           = walkUp emptyProject ''/proj'' ''node_modules2/a.js'' ''node_modules2''"
    by (subst walkUp.simps) (simp add: d1 e1)
  have s2: "walkUp emptyProject ''/proj'' ''node_modules2/a.js'' ''node_modules2''
           = walkUp emptyProject ''/proj'' ''node_modules2/a.js'' ''.''"
    by (subst walkUp.simps) (simp add: d2 no_manifest_in_emptyProject)
  have b: "basename ''node_modules2/a.js'' \<noteq> ''package.json''"
    by (simp add: basename_def)
  have p1: "startsWith ''node_modules2/a.js'' ''node_modules''"
    by (simp add: startsWith_def)
  have p2: "\<not> startsWith ''node_modules2/a.js'' (path_join [''node_modules'', ''tns-core-modules''])"
    by (simp add: startsWith_def path_join_def path_normalize_def)
  show ?thesis
    unfolding fileChangeRequiresBuild_def
    using b p1 p2 by (simp add: s1 s2 walkUp_dot_diverges)
qed



section \<open>Properties of the ProjectChangesInfo constructor\<close>

text \<open>With a \<^verbatim>\<open>processFunc\<close>, the scan never lowers \<^verbatim>\<open>newFiles\<close>, and it raises it when it
  returns true.\<close>

lemma containsNewerFilesIn_counts:
  "containsNewerFilesIn fs pd processFunc skipDir mtime dir es n = Some (Inr (b, n'))
     \<Longrightarrow> processFunc \<noteq> None \<Longrightarrow> n \<le> n' \<and> (b \<longrightarrow> n < n')"
proof (induction fs pd processFunc skipDir mtime dir es n arbitrary: b n'
       rule: containsNewerFilesIn.induct)
  case (1 fs projectDir processFunc skipDir mtime dir n)
  then show ?case by simp
next
  case (2 fs projectDir processFunc skipDir mtime dir fl node rest n)
  from 2(6) obtain pf where pf: "processFunc = Some pf" by auto
  let ?filePath = "path_join [dir, fl]"
  show ?case
  proof (cases "Some ?filePath = skipDir")
    case True
    with 2(1)[OF refl True _ 2(6)] 2(5) show ?thesis by simp
  next
    case False
    define first where "first = (if mtime < mtime_of node \<or> mtime < lmtime_of node
          then case processFunc of None \<Rightarrow> Some (Inr (True, n))
               | Some pf \<Rightarrow>
                   case pf (path_relative projectDir ?filePath) projectDir fs of
                   None \<Rightarrow> None | Some (Inl e) \<Rightarrow> Some (Inl e)
                   | Some (Inr b) \<Rightarrow> Some (Inr (b, Suc n))
          else Some (Inr (False, n)))"
    have unf: "containsNewerFilesIn fs projectDir processFunc skipDir mtime dir ((fl, node) # rest) n =
      (case first of
              None \<Rightarrow> None
            | Some (Inl e) \<Rightarrow> Some (Inl e)
            | Some (Inr (True, n1)) \<Rightarrow> Some (Inr (True, n1))
            | Some (Inr (False, n1)) \<Rightarrow>
                (case node of
                   FsDir m l es \<Rightarrow>
                     (case containsNewerFilesIn fs projectDir processFunc skipDir mtime ?filePath es n1 of
                        None \<Rightarrow> None
                      | Some (Inl e) \<Rightarrow> Some (Inl e)
                      | Some (Inr (True, n2)) \<Rightarrow> Some (Inr (True, n2))
                      | Some (Inr (False, n2)) \<Rightarrow>
                          containsNewerFilesIn fs projectDir processFunc skipDir mtime dir rest n2)
                 | FsFile m l c \<Rightarrow>
                     containsNewerFilesIn fs projectDir processFunc skipDir mtime dir rest n1))"
      using False by (simp add: first_def Let_def)
    from 2(5) obtain b1 n1 where f: "first = Some (Inr (b1, n1))"
      unfolding unf by (auto split: option.splits sum.splits)
    have n1: "n \<le> n1" "b1 \<longrightarrow> n < n1"
      using f pf unfolding first_def by (auto split: option.splits sum.splits if_splits)
    show ?thesis
    proof (cases b1)
      case True
      with 2(5) f n1 show ?thesis unfolding unf by simp
    next
      case b1F: False
      have f': "(if mtime < mtime_of node \<or> mtime < lmtime_of node
          then case processFunc of None \<Rightarrow> Some (Inr (True, n))
               | Some pf \<Rightarrow>
                   case pf (path_relative projectDir ?filePath) projectDir fs of
                   None \<Rightarrow> None | Some (Inl e) \<Rightarrow> Some (Inl e)
                   | Some (Inr b) \<Rightarrow> Some (Inr (b, Suc n))
          else Some (Inr (False, n))) = Some (Inr (False, n1))"
        using f b1F by (simp add: first_def)
      show ?thesis
      proof (cases node)
        case (FsFile m l c)
        with 2(5) f b1F
        have r: "containsNewerFilesIn fs projectDir processFunc skipDir mtime dir rest n1 = Some (Inr (b, n'))"
          unfolding unf by simp
        from 2(2)[OF refl False f' refl refl refl FsFile r 2(6)] n1
        show ?thesis by auto
      next
        case (FsDir m l es)
        with 2(5) f b1F obtain b2 n2 where
          r: "containsNewerFilesIn fs projectDir processFunc skipDir mtime ?filePath es n1 = Some (Inr (b2, n2))"
          unfolding unf by (auto split: option.splits sum.splits)
        from 2(3)[OF refl False f' refl refl refl FsDir r 2(6)]
        have n2: "n1 \<le> n2" "b2 \<longrightarrow> n1 < n2" by auto
        show ?thesis
        proof (cases b2)
          case True
          with 2(5) f b1F FsDir r n1 n2 show ?thesis unfolding unf by simp
        next
          case b2F: False
          with 2(5) f b1F FsDir r
          have r2: "containsNewerFilesIn fs projectDir processFunc skipDir mtime dir rest n2 = Some (Inr (b, n'))"
            unfolding unf by simp
          have r': "containsNewerFilesIn fs projectDir processFunc skipDir mtime ?filePath es n1 = Some (Inr (False, n2))"
            using r b2F by simp
          from 2(4)[OF refl False f' refl refl refl FsDir r' refl refl refl r2 2(6)] n1 n2
          show ?thesis by auto
        qed
      qed
    qed
  qed
qed


lemma checkModulesAndResources_native:
  assumes "checkModulesAndResources env m c = Some (Inr c')"
  shows "(nativeChanged c' \<longrightarrow> modulesChanged c') \<and> written c' = written c"
proof -
  define c1 where "c1 = c\<lparr>packageChanged :=
       filesChanged (pe_fs env) [path_join [pe_projectDir env, ''package.json'']] m\<rparr>"
  from assms obtain res n1 where
    r1: "containsNewerFiles (pe_fs env) (pe_projectDir env) None
                (pe_appResourcesDirectoryPath env) None m (newFiles c1) = Some (Inr (res, n1))"
    unfolding checkModulesAndResources_def c1_def
    by (auto simp: Let_def split: option.splits sum.splits)
  from assms r1 obtain native n2 where
    r2: "containsNewerFiles (pe_fs env) (pe_projectDir env) (Some fileChangeRequiresBuild)
                     (path_join [pe_projectDir env, ''node_modules''])
                     (Some (path_join [pe_projectDir env, ''node_modules'', ''tns-ios-inspector'']))
                     m n1 = Some (Inr (native, n2))"
    unfolding checkModulesAndResources_def c1_def
    by (auto simp: Let_def split: option.splits sum.splits)
  have cnt: "native \<longrightarrow> 0 < n2"
  proof -
    from r2 obtain es where
      "containsNewerFilesIn (pe_fs env) (pe_projectDir env) (Some fileChangeRequiresBuild)
         (Some (path_join [pe_projectDir env, ''node_modules'', ''tns-ios-inspector''])) m
         (path_join [pe_projectDir env, ''node_modules'']) es n1 = Some (Inr (native, n2))"
      unfolding containsNewerFiles_def by (auto split: sum.splits)
    from containsNewerFilesIn_counts[OF this] show ?thesis by auto
  qed
  from assms r1 r2 have c': "c' =
      (let c2 = c1\<lparr>appResourcesChanged := res, nativeChanged := native, newFiles := n2\<rparr>;
           c3 = (if newFiles c2 > 0 then c2\<lparr>modulesChanged := True\<rparr> else c2)
       in c3\<lparr>configChanged := filesChanged (pe_fs env) (configFiles env) m\<rparr>)"
    unfolding checkModulesAndResources_def c1_def by (simp add: Let_def)
  show ?thesis using cnt unfolding c' c1_def by (auto simp: Let_def)
qed

lemma reconcile_native:
  assumes "reconcile env f = Some (Inr c)"
  shows "(nativeChanged c \<longrightarrow> modulesChanged c) \<and> written c = None"
proof -
  from assms obtain node info app n where
    a: "fs_lookup (pe_fs env) f = Some node" "readPrepareInfo (pe_fs env) f = Inr info"
       "containsNewerFiles (pe_fs env) (pe_projectDir env) None
                          (pe_appDirectoryPath env) (Some (pe_appResourcesDirectoryPath env))
                          (mtime_of node) 0 = Some (Inr (app, n))"
    unfolding reconcile_def by (auto simp: Let_def split: option.splits sum.splits)
  define c0 where "c0 = initialChangesInfo\<lparr>prepareInfo := info, appFilesChanged := app, newFiles := n\<rparr>"
  define mid where "mid = (if \<not> pe_skipModulesAndResources env
                              then checkModulesAndResources env (mtime_of node) c0
                              else Some (Inr c0))"
  from assms a obtain cm where cm: "mid = Some (Inr cm)"
    unfolding reconcile_def mid_def c0_def by (auto simp: Let_def split: option.splits sum.splits)
  have cmp: "(nativeChanged cm \<longrightarrow> modulesChanged cm) \<and> written cm = None"
  proof (cases "pe_skipModulesAndResources env")
    case True
    with cm have "cm = c0" by (simp add: mid_def)
    then show ?thesis by (simp add: c0_def initialChangesInfo_def)
  next
    case False
    with cm have "checkModulesAndResources env (mtime_of node) c0 = Some (Inr cm)"
      by (simp add: mid_def)
    from checkModulesAndResources_native[OF this] show ?thesis
      by (simp add: c0_def initialChangesInfo_def)
  qed
  from assms a cm have c: "c =
       (let c1 = (if pe_bundle env \<noteq> pi_bundle (prepareInfo cm)
                     \<or> pe_release env \<noteq> pi_release (prepareInfo cm)
                  then cm\<lparr>appFilesChanged := True, appResourcesChanged := True,
                          modulesChanged := True, configChanged := True,
                          prepareInfo := (prepareInfo cm)
                            \<lparr>pi_release := pe_release env, pi_bundle := pe_bundle env\<rparr>\<rparr>
                  else cm);
            c2 = (if packageChanged c1 then c1\<lparr>modulesChanged := True\<rparr> else c1);
            c3 = (if modulesChanged c2 \<or> appResourcesChanged c2
                  then c2\<lparr>configChanged := True\<rparr> else c2)
        in c3)"
    unfolding reconcile_def mid_def c0_def by (simp add: Let_def)
  show ?thesis using cmp unfolding c by (auto simp: Let_def)
qed

text \<open>
  C3.  When the constructor returns, it has rewritten \<^verbatim>\<open>.nsprepareinfo\<close> exactly when
  one of the six flags is set, and what it wrote is \<^verbatim>\<open>prepareInfo\<close> with the time
  refreshed.  \<^verbatim>\<open>hasChanges\<close> tests five flags only; \<^verbatim>\<open>nativeChanged\<close> is never set without
  \<^verbatim>\<open>modulesChanged\<close>, because the scan that sets it counts a new file before it asks
  \<^verbatim>\<open>fileChangeRequiresBuild\<close>.
\<close>

theorem prepareInfo_written_iff_changed:
  assumes "newProjectChangesInfo env = Some (Inr c)"
  shows "(written c \<noteq> None) =
           (appFilesChanged c \<or> appResourcesChanged c \<or> modulesChanged c \<or> configChanged c
            \<or> packageChanged c \<or> nativeChanged c)
         \<and> (written c \<noteq> None \<longrightarrow>
              written c = Some (path_join [pe_projectRoot env, prepareInfoFileName], prepareInfo c)
              \<and> pi_time (prepareInfo c) = pe_now env)"
proof -
  define f where "f = path_join [pe_projectRoot env, prepareInfoFileName]"
  define pre where "pre = (if pe_force env \<or> \<not> fs_exists (pe_fs env) f then
                 Some (Inr (initialChangesInfo
                    \<lparr>appFilesChanged := True, appResourcesChanged := True, modulesChanged := True,
                     configChanged := True,
                     prepareInfo := \<lparr> pi_time = [], pi_bundle = pe_bundle env,
                                      pi_release = pe_release env \<rparr>\<rparr>))
               else reconcile env f)"
  from assms obtain c0 where c0: "pre = Some (Inr c0)"
    unfolding newProjectChangesInfo_def pre_def f_def
    by (auto simp: Let_def split: option.splits sum.splits)
  have p: "(nativeChanged c0 \<longrightarrow> modulesChanged c0) \<and> written c0 = None"
  proof (cases "pe_force env \<or> \<not> fs_exists (pe_fs env) f")
    case True
    with c0 show ?thesis by (auto simp: pre_def initialChangesInfo_def)
  next
    case False
    with c0 have "reconcile env f = Some (Inr c0)" by (simp add: pre_def)
    from reconcile_native[OF this] show ?thesis .
  qed
  from assms c0 have c: "c = (if hasChanges c0 then
               c0\<lparr>prepareInfo := (prepareInfo c0)\<lparr>pi_time := pe_now env\<rparr>,
                  written := Some (f, (prepareInfo c0)\<lparr>pi_time := pe_now env\<rparr>)\<rparr>
             else c0)"
    unfolding newProjectChangesInfo_def pre_def f_def
    by (auto simp: Let_def split: if_splits)
  show ?thesis
    using p unfolding c f_def[symmetric] by (auto simp: hasChanges_def)
qed



theorem prepareInfo_written_iff_changed_witness:
  "newProjectChangesInfo androidPrepare =
     Some (Inr \<lparr> appFilesChanged = False, appResourcesChanged = False, modulesChanged = True,
       configChanged = True,
       prepareInfo = \<lparr> pi_time = ''t1'', pi_bundle = False, pi_release = False \<rparr>,
       packageChanged = False, nativeChanged = True, newFiles = 1,
       written = Some (''/proj/platforms/android/.nsprepareinfo'',
                       \<lparr> pi_time = ''t1'', pi_bundle = False, pi_release = False \<rparr>) \<rparr>)
   \<and> (\<exists>c. newProjectChangesInfo androidPrepare = Some (Inr c)
        \<and> (written c \<noteq> None) =
             (appFilesChanged c \<or> appResourcesChanged c \<or> modulesChanged c \<or> configChanged c
              \<or> packageChanged c \<or> nativeChanged c)
        \<and> (written c \<noteq> None \<longrightarrow>
              written c = Some (path_join [pe_projectRoot androidPrepare, prepareInfoFileName],
                                prepareInfo c)
              \<and> pi_time (prepareInfo c) = pe_now androidPrepare))"
proof -
  have e: "newProjectChangesInfo androidPrepare =
     Some (Inr \<lparr> appFilesChanged = False, appResourcesChanged = False, modulesChanged = True,
       configChanged = True,
       prepareInfo = \<lparr> pi_time = ''t1'', pi_bundle = False, pi_release = False \<rparr>,
       packageChanged = False, nativeChanged = True, newFiles = 1,
       written = Some (''/proj/platforms/android/.nsprepareinfo'',
                       \<lparr> pi_time = ''t1'', pi_bundle = False, pi_release = False \<rparr>) \<rparr>)"
    by code_simp
  from prepareInfo_written_iff_changed[OF e] e show ?thesis by blast
qed

section \<open>Properties of applyDelta\<close>

text \<open>The deletions never touch what \<^verbatim>\<open>applyDelta\<close> returns with: the file system is the
  one the delta without \<^verbatim>\<open>rmfile\<close> and \<^verbatim>\<open>rmdir\<close> gives.\<close>

lemma applyDelta_waits_for_no_deletion:
  "map_sum id ap_fs (applyDelta ops pp delta fs)
     = map_sum id ap_fs (applyDelta ops pp (delta\<lparr>d_rmfile := [], d_rmdir := []\<rparr>) fs)"
  by (simp add: applyDelta_def Let_def split: sum.splits)

lemma applyDelta_started:
  "applyDelta ops pp delta fs = Inr r \<Longrightarrow>
     ap_started r = map (\<lambda>file. DeleteFile (path_join [pp, file])) (d_rmfile delta)
                    @ map (\<lambda>dir. DeleteDirectory (path_join [pp, dir])) (rev (sort (d_rmdir delta)))"
  by (auto simp: applyDelta_def Let_def split: sum.splits)


section \<open>Properties of copyAll\<close>

text \<open>
  C7, as stated, at a file named \<^verbatim>\<open>a.ios.b.ios.js\<close>.  The claim is that the target path
  has every occurrence of \<^verbatim>\<open>.ios.\<close> replaced by a dot, which would be \<^verbatim>\<open>a.b.js\<close>.
  \<^verbatim>\<open>String.replace\<close> with a string pattern replaces the first occurrence only: the
  target is \<^verbatim>\<open>a.b.ios.js\<close>.
\<close>

theorem copyAll_keeps_second_infix:
  "d_copy (copyAll [''ios'', ''android''] ''ios'' (IOS_output ''/proj'') fooPackage emptyDelta)
     = [(''platforms/ios/proj/app/tns_modules/foo/a.b.ios.js'', twiceIos)]
   \<and> out_modules (IOS_output ''/proj'') @ sep @ p_name fooPackage @ sep
       @ replaceAllStr (f_path twiceIos) ''.ios.'' ''.''
     = ''platforms/ios/proj/app/tns_modules/foo/a.b.js''
   \<and> ''platforms/ios/proj/app/tns_modules/foo/a.b.ios.js''
       \<noteq> out_modules (IOS_output ''/proj'') @ sep @ p_name fooPackage @ sep
           @ replaceAllStr (f_path twiceIos) ''.ios.'' ''.''"
  by code_simp

lemma copyAll_fold_entry:
  "map_of (d_copy (foldl (\<lambda>d file.
              if excludedFile pls platform file then d
              else d\<lparr>d_copy := AList.update (copyTarget platform output pack file) file (d_copy d)\<rparr>)
       delta files)) k
   = (case find (\<lambda>f. \<not> excludedFile pls platform f \<and> copyTarget platform output pack f = k)
             (rev files) of
        Some f \<Rightarrow> Some f
      | None \<Rightarrow> map_of (d_copy delta) k)"
proof (induction files rule: rev_induct)
  case Nil
  show ?case by simp
next
  case (snoc f files)
  show ?case
    by (simp add: snoc.IH update_conv')
qed

lemma copyAll_fold_others:
  "d_mkdir (foldl (\<lambda>d file.
              if excludedFile pls platform file then d
              else d\<lparr>d_copy := AList.update (copyTarget platform output pack file) file (d_copy d)\<rparr>)
       delta files) = d_mkdir delta
   \<and> d_rmfile (foldl (\<lambda>d file.
              if excludedFile pls platform file then d
              else d\<lparr>d_copy := AList.update (copyTarget platform output pack file) file (d_copy d)\<rparr>)
       delta files) = d_rmfile delta
   \<and> d_rmdir (foldl (\<lambda>d file.
              if excludedFile pls platform file then d
              else d\<lparr>d_copy := AList.update (copyTarget platform output pack file) file (d_copy d)\<rparr>)
       delta files) = d_rmdir delta"
  by (induction files rule: rev_induct) simp_all

lemma excludedFile_iff:
  "excludedFile pls platform f
     = (\<exists>p \<in> set pls. p \<noteq> platform \<and> containsStr (f_name f) (''.'' @ p @ ''.''))"
  by (auto simp: excludedFile_def platformSuffixFilter_def list_ex_iff)

lemma containsStr_iff: "containsStr s t = (\<exists>i. occursAt s t i)"
proof (induction s)
  case Nil
  show ?case by (auto simp: occursAt_def startsWith_def)
next
  case (Cons c cs)
  show ?case
  proof
    assume "containsStr (c # cs) t"
    then consider "startsWith (c # cs) t" | "containsStr cs t" by auto
    then show "\<exists>i. occursAt (c # cs) t i"
    proof cases
      case 1
      then have "occursAt (c # cs) t 0" by (simp add: occursAt_def)
      then show ?thesis ..
    next
      case 2
      with Cons obtain i where "occursAt cs t i" by auto
      then have "occursAt (c # cs) t (Suc i)" by (simp add: occursAt_def)
      then show ?thesis ..
    qed
  next
    assume "\<exists>i. occursAt (c # cs) t i"
    then obtain i where i: "occursAt (c # cs) t i" ..
    show "containsStr (c # cs) t"
    proof (cases i)
      case 0
      with i show ?thesis by (simp add: occursAt_def)
    next
      case (Suc k)
      with i have "occursAt cs t k" by (simp add: occursAt_def)
      with Cons show ?thesis by auto
    qed
  qed
qed

lemma replaceStr_leftmost:
  "occursAt s t i \<Longrightarrow> (\<forall>k<i. \<not> occursAt s t k)
     \<Longrightarrow> replaceStr s t r = take i s @ r @ drop (i + length t) s"
proof (induction s arbitrary: i)
  case Nil
  then show ?case by (auto simp: occursAt_def startsWith_def)
next
  case (Cons c cs)
  show ?case
  proof (cases i)
    case 0
    with Cons.prems show ?thesis by (simp add: occursAt_def)
  next
    case (Suc k)
    with Cons.prems have n0: "\<not> startsWith (c # cs) t"
      by (auto simp: occursAt_def dest!: spec[of _ 0])
    from Suc Cons.prems have ok: "occursAt cs t k" by (simp add: occursAt_def)
    have "\<forall>j<k. \<not> occursAt cs t j"
    proof (intro allI impI)
      fix j assume "j < k"
      then have "Suc j < i" using Suc by simp
      with Cons.prems have "\<not> occursAt (c # cs) t (Suc j)" by blast
      then show "\<not> occursAt cs t j" by (simp add: occursAt_def)
    qed
    from Cons.IH[OF ok this] n0 Suc show ?thesis by simp
  qed
qed

lemma replaceStr_absent:
  "\<not> containsStr s t \<Longrightarrow> replaceStr s t r = s"
  by (induction s) (auto simp: startsWith_def)

text \<open>
  C7, amended.  After \<^verbatim>\<open>copyAll(pack)\<close>, the entry of \<^verbatim>\<open>delta.copy\<close> under a key is the
  last script file of the package that has this key as its target path and whose
  name holds no \<^verbatim>\<open>.<other>.\<close> for a platform other than the current one, and is what
  it was before when the package has no such file; nothing else of the delta changes.
  The target path of a file is \<^verbatim>\<open>output.modules/<pack.name>/<file.path>\<close> with the
  leftmost occurrence of \<^verbatim>\<open>.<P>.\<close> in \<^verbatim>\<open>file.path\<close> replaced by a dot, and with
  \<^verbatim>\<open>file.path\<close> as it is when there is no occurrence.
\<close>

theorem copyAll_entries:
  "map_of (d_copy (copyAll pls platform output pack delta)) k
     = (case find (\<lambda>f. \<not> (\<exists>p \<in> set pls. p \<noteq> platform \<and> containsStr (f_name f) (''.'' @ p @ ''.''))
                       \<and> copyTarget platform output pack f = k)
               (rev (p_scriptFiles pack)) of
          Some f \<Rightarrow> Some f
        | None \<Rightarrow> map_of (d_copy delta) k)
   \<and> d_mkdir (copyAll pls platform output pack delta) = d_mkdir delta
   \<and> d_rmfile (copyAll pls platform output pack delta) = d_rmfile delta
   \<and> d_rmdir (copyAll pls platform output pack delta) = d_rmdir delta
   \<and> (\<forall>f i. occursAt (f_path f) (''.'' @ platform @ ''.'') i
            \<and> (\<forall>k<i. \<not> occursAt (f_path f) (''.'' @ platform @ ''.'') k)
        \<longrightarrow> copyTarget platform output pack f
              = out_modules output @ sep @ p_name pack @ sep
                @ take i (f_path f) @ ''.'' @ drop (i + length (''.'' @ platform @ ''.'')) (f_path f))
   \<and> (\<forall>f. \<not> containsStr (f_path f) (''.'' @ platform @ ''.'')
        \<longrightarrow> copyTarget platform output pack f
              = out_modules output @ sep @ p_name pack @ sep @ f_path f)"
proof -
  have 1: "map_of (d_copy (copyAll pls platform output pack delta)) k
     = (case find (\<lambda>f. \<not> (\<exists>p \<in> set pls. p \<noteq> platform \<and> containsStr (f_name f) (''.'' @ p @ ''.''))
                       \<and> copyTarget platform output pack f = k)
               (rev (p_scriptFiles pack)) of
          Some f \<Rightarrow> Some f
        | None \<Rightarrow> map_of (d_copy delta) k)"
    using copyAll_fold_entry[where files = "p_scriptFiles pack" and delta = delta and k = k]
    unfolding copyAll_def excludedFile_iff by simp
  have 0: "d_mkdir (copyAll pls platform output pack delta) = d_mkdir delta
      \<and> d_rmfile (copyAll pls platform output pack delta) = d_rmfile delta
      \<and> d_rmdir (copyAll pls platform output pack delta) = d_rmdir delta"
    using copyAll_fold_others[where files = "p_scriptFiles pack" and delta = delta]
    unfolding copyAll_def by simp
  have 2: "\<And>f i. occursAt (f_path f) (''.'' @ platform @ ''.'') i
            \<Longrightarrow> (\<forall>k<i. \<not> occursAt (f_path f) (''.'' @ platform @ ''.'') k)
        \<Longrightarrow> copyTarget platform output pack f
              = out_modules output @ sep @ p_name pack @ sep
                @ take i (f_path f) @ ''.'' @ drop (i + length (''.'' @ platform @ ''.'')) (f_path f)"
    unfolding copyTarget_def by (subst replaceStr_leftmost) auto
  have 3: "\<And>f. \<not> containsStr (f_path f) (''.'' @ platform @ ''.'')
        \<Longrightarrow> copyTarget platform output pack f
              = out_modules output @ sep @ p_name pack @ sep @ f_path f"
    unfolding copyTarget_def by (simp add: replaceStr_absent)
  from 0 1 2 3 show ?thesis by blast
qed

theorem copyAll_entries_witness:
  "occursAt (f_path twiceIos) (''.'' @ ''ios'' @ ''.'') 1
   \<and> \<not> occursAt (f_path twiceIos) (''.'' @ ''ios'' @ ''.'') 0
   \<and> copyTarget ''ios'' (IOS_output ''/proj'') fooPackage twiceIos
       = out_modules (IOS_output ''/proj'') @ sep @ p_name fooPackage @ sep
         @ take 1 (f_path twiceIos) @ ''.''
         @ drop (1 + length (''.'' @ ''ios'' @ ''.'')) (f_path twiceIos)
   \<and> map_of (d_copy (copyAll [''ios'', ''android''] ''ios'' (IOS_output ''/proj'') barPackage
                        emptyDelta)) ''platforms/ios/proj/app/tns_modules/bar/b.js''
       = Some bJs
   \<and> d_copy (copyAll [''ios'', ''android''] ''ios'' (IOS_output ''/proj'') barPackage emptyDelta)
       = [(''platforms/ios/proj/app/tns_modules/bar/b.js'', bJs)]"
proof -
  have h1: "occursAt (f_path twiceIos) (''.'' @ ''ios'' @ ''.'') 1"
    by (simp add: occursAt_def twiceIos_def startsWith_def)
  have h2: "\<forall>k<1. \<not> occursAt (f_path twiceIos) (''.'' @ ''ios'' @ ''.'') k"
    by (simp add: occursAt_def twiceIos_def startsWith_def)
  have k: "d_copy (copyAll [''ios'', ''android''] ''ios'' (IOS_output ''/proj'') barPackage emptyDelta)
       = [(''platforms/ios/proj/app/tns_modules/bar/b.js'', bJs)]"
    by code_simp
  have f: "find (\<lambda>f. \<not> (\<exists>p \<in> set [''ios'', ''android''].
                          p \<noteq> ''ios'' \<and> containsStr (f_name f) (''.'' @ p @ ''.''))
                     \<and> copyTarget ''ios'' (IOS_output ''/proj'') barPackage f
                         = ''platforms/ios/proj/app/tns_modules/bar/b.js'')
             (rev (p_scriptFiles barPackage)) = Some bJs"
    by code_simp
  from copyAll_entries[where platform = "''ios''" and pack = fooPackage
      and delta = emptyDelta and pls = "[''ios'', ''android'']"] h1 h2
  have t: "copyTarget ''ios'' (IOS_output ''/proj'') fooPackage twiceIos
       = out_modules (IOS_output ''/proj'') @ sep @ p_name fooPackage @ sep
         @ take 1 (f_path twiceIos) @ ''.''
         @ drop (1 + length (''.'' @ ''ios'' @ ''.'')) (f_path twiceIos)"
    by blast
  from copyAll_entries[where platform = "''ios''" and pack = barPackage
      and delta = emptyDelta and pls = "[''ios'', ''android'']"
      and k = "''platforms/ios/proj/app/tns_modules/bar/b.js''"] f
  have m: "map_of (d_copy (copyAll [''ios'', ''android''] ''ios'' (IOS_output ''/proj'') barPackage
                        emptyDelta)) ''platforms/ios/proj/app/tns_modules/bar/b.js''
       = Some bJs"
    by simp
  have "\<not> occursAt (f_path twiceIos) (''.'' @ ''ios'' @ ''.'') 0"
    using h2 by simp
  with h1 t m k show ?thesis by simp
qed

section \<open>Properties of the package graph\<close>

lemma nth_updatePack:
  "i < length (packs src) \<Longrightarrow>
     packs (updatePack i f src) ! j = (if j = i then f (packs src ! i) else packs src ! j)"
  by (simp add: updatePack_def)

lemma length_updatePack [simp]: "length (packs (updatePack i f src)) = length (packs src)"
  by (simp add: updatePack_def)

lemma dependencies_updatePack [simp]: "dependencies (updatePack i f src) = dependencies src"
  by (simp add: updatePack_def)

lemma resolveConflicts_incumbent:
  assumes t: "p_type pack \<noteq> App"
    and q: "map_of (dependencies src) (p_name pack) = Some q"
    and ne: "q \<noteq> i" and il: "i < length (packs src)" and ql: "q < length (packs src)"
    and qj: "p_packageJson (packs src ! q) = Some qjson"
    and g: "semverGt env (json_version json) (json_version qjson) = Inr g"
  shows "\<exists>src1. resolveConflicts env i pack json src = Inr src1
     \<and> (if g then p_availability (packs src1 ! i) = Available
                  \<and> map_of (dependencies src1) (p_name pack) = Some i
                  \<and> p_availability (packs src1 ! q) = ShadowedByDiverged
         else p_availability (packs src1 ! i) = ShadowedByDiverged
                  \<and> map_of (dependencies src1) (p_name pack) = Some q
                  \<and> p_availability (packs src1 ! q) = p_availability (packs src ! q))"
proof (cases g)
  case True
  with t q qj g have r: "resolveConflicts env i pack json src =
      Inr (setDependency (p_name pack) i
             (setAvailability q ShadowedByDiverged (setAvailability i Available src)))"
    by (simp add: resolveConflicts_def)
  show ?thesis
    unfolding r using True ne il ql
    by (simp add: setDependency_def setAvailability_def nth_updatePack update_conv')
next
  case False
  with t q qj g have r: "resolveConflicts env i pack json src =
      Inr (setAvailability i ShadowedByDiverged src)"
    by (simp add: resolveConflicts_def)
  show ?thesis
    unfolding r using False ne il ql q
    by (simp add: setAvailability_def nth_updatePack)
qed

text \<open>
  C2.  \<^verbatim>\<open>selectDependencyPackages\<close> reaches the conflict test with a package at position
  \<open>i\<close> when its \<^verbatim>\<open>package.json\<close> exists and parses, its name is not shadowed by an
  ancestor, and it is not the app.  If then the table maps its name to another package
  \<open>q\<close>, the loop over the children starts in a state \<open>src1\<close> in which: when
  \<^verbatim>\<open>semver.gt\<close> holds, the package is Available and is the table entry and \<open>q\<close> is
  ShadowedByDiverged; otherwise (equal versions too) the package is ShadowedByDiverged
  and \<open>q\<close> keeps the entry and its availability.
\<close>

theorem selectDependencyPackages_conflict:
  assumes "fs_exists (fsroot env) (path_join [projectPath env, p_path pack, ''package.json''])"
    and "p_name pack \<notin> p_resolvedAtGrandparent pack"
    and "readJson (fsroot env) (path_join [projectPath env, p_path pack, ''package.json'']) = Inr json"
    and "p_type pack \<noteq> App"
    and "map_of (dependencies src) (p_name pack) = Some q"
    and "q \<noteq> i" and "i < length (packs src)" and "q < length (packs src)"
    and "p_packageJson (packs src ! q) = Some qjson"
    and "semverGt env (json_version json) (json_version qjson) = Inr g"
  shows "\<exists>src1.
      selectDependencyPackages env i pack src =
        foldE (\<lambda>dep s.
                 let child = newChild pack
                       (p_resolvedAtParent pack \<union> fst ` set (json_dependencies json))
                       (fst dep) (snd dep)
                 in selectDependencyPackages env (length (packs s)) child (pushChild i child s))
          (json_dependencies json) src1
      \<and> (if g then p_availability (packs src1 ! i) = Available
                   \<and> map_of (dependencies src1) (p_name pack) = Some i
                   \<and> p_availability (packs src1 ! q) = ShadowedByDiverged
          else p_availability (packs src1 ! i) = ShadowedByDiverged
                   \<and> map_of (dependencies src1) (p_name pack) = Some q
                   \<and> p_availability (packs src1 ! q) = p_availability (packs src ! q))"
proof -
  let ?src0 = "updatePack i (\<lambda>p. p\<lparr>p_packageJson := Some json, p_version := json_version json\<rparr>) src"
  have q0: "map_of (dependencies ?src0) (p_name pack) = Some q" using assms(5) by simp
  have l0: "i < length (packs ?src0)" "q < length (packs ?src0)" using assms(7,8) by simp_all
  have j0: "p_packageJson (packs ?src0 ! q) = Some qjson"
    using assms(6,7,9) by (simp add: nth_updatePack)
  have a0: "p_availability (packs ?src0 ! q) = p_availability (packs src ! q)"
    using assms(6,7) by (simp add: nth_updatePack)
  from resolveConflicts_incumbent[OF assms(4) q0 assms(6) l0 j0 assms(10)]
  obtain src1 where s1: "resolveConflicts env i pack json ?src0 = Inr src1"
     "(if g then p_availability (packs src1 ! i) = Available
                   \<and> map_of (dependencies src1) (p_name pack) = Some i
                   \<and> p_availability (packs src1 ! q) = ShadowedByDiverged
          else p_availability (packs src1 ! i) = ShadowedByDiverged
                   \<and> map_of (dependencies src1) (p_name pack) = Some q
                   \<and> p_availability (packs src1 ! q) = p_availability (packs ?src0 ! q))"
    by blast
  have "selectDependencyPackages env i pack src =
        foldE (\<lambda>dep s.
                 let child = newChild pack
                       (p_resolvedAtParent pack \<union> fst ` set (json_dependencies json))
                       (fst dep) (snd dep)
                 in selectDependencyPackages env (length (packs s)) child (pushChild i child s))
          (json_dependencies json) src1"
    by (subst selectDependencyPackages.simps) (simp add: assms(1,2,3) s1(1))
  with s1(2) a0 show ?thesis by (intro exI[of _ src1]) (auto split: if_splits)
qed


theorem selectDependencyPackages_conflict_witness:
  "fs_exists (fsroot divergedEnv) (path_join [projectPath divergedEnv, p_path newerBar, ''package.json''])
   \<and> p_name newerBar \<notin> p_resolvedAtGrandparent newerBar
   \<and> p_type newerBar \<noteq> App
   \<and> map_of (dependencies secondBarReached) (p_name newerBar) = Some 1
   \<and> (\<exists>src1. selectDependencyPackages divergedEnv 2 newerBar secondBarReached = Inr src1
         \<and> p_availability (packs src1 ! 2) = Available
         \<and> map_of (dependencies src1) ''bar'' = Some 2
         \<and> p_availability (packs src1 ! 1) = ShadowedByDiverged)"
proof -
  let ?json = "\<lparr> json_name = None, json_version = Some ''1.2.0'',
                  json_dependencies = [], json_nativescript = None \<rparr>"
  let ?qjson = "\<lparr> json_name = None, json_version = Some ''1.1.0'',
                   json_dependencies = [], json_nativescript = None \<rparr>"
  have h1: "fs_exists (fsroot divergedEnv)
              (path_join [projectPath divergedEnv, p_path newerBar, ''package.json''])"
    by code_simp
  have h2: "p_name newerBar \<notin> p_resolvedAtGrandparent newerBar"
    by (simp add: newerBar_def)
  have h3: "readJson (fsroot divergedEnv)
              (path_join [projectPath divergedEnv, p_path newerBar, ''package.json'']) = Inr ?json"
    by code_simp
  have h4: "p_type newerBar \<noteq> App" by (simp add: newerBar_def)
  have h5: "map_of (dependencies secondBarReached) (p_name newerBar) = Some 1"
    by (simp add: secondBarReached_def newerBar_def)
  have h6: "(1::nat) \<noteq> 2" by simp
  have h7: "2 < length (packs secondBarReached)" by (simp add: secondBarReached_def)
  have h8: "1 < length (packs secondBarReached)" by (simp add: secondBarReached_def)
  have h9: "p_packageJson (packs secondBarReached ! 1) = Some ?qjson"
    by (simp add: secondBarReached_def olderBar_def)
  have h10: "semverGt divergedEnv (json_version ?json) (json_version ?qjson) = Inr True"
    by (simp add: semverGt_def divergedEnv_def)
  from selectDependencyPackages_conflict[OF h1 h2 h3 h4 h5 h6 h7 h8 h9 h10]
  obtain src1 where
    "selectDependencyPackages divergedEnv 2 newerBar secondBarReached = Inr src1"
    "p_availability (packs src1 ! 2) = Available"
    "map_of (dependencies src1) (p_name newerBar) = Some 2"
    "p_availability (packs src1 ! 1) = ShadowedByDiverged"
    by auto
  then have "\<exists>src1. selectDependencyPackages divergedEnv 2 newerBar secondBarReached = Inr src1
         \<and> p_availability (packs src1 ! 2) = Available
         \<and> map_of (dependencies src1) ''bar'' = Some 2
         \<and> p_availability (packs src1 ! 1) = ShadowedByDiverged"
    by (auto simp: newerBar_def)
  with h1 h2 h4 h5 show ?thesis by blast
qed

text \<open>The whole traversal of the two-branch project: \<^verbatim>\<open>bar@1.2.0\<close> is the table entry and
  \<^verbatim>\<open>bar@1.1.0\<close> is ShadowedByDiverged.\<close>

lemma diverged_duplicate_resolved:
  "(case newSource divergedEnv of
      Some (Inr s) \<Rightarrow>
        map_of (dependencies s) ''bar'' = Some 4
        \<and> p_version (packs s ! 4) = Some ''1.2.0'' \<and> p_availability (packs s ! 4) = Available
        \<and> p_version (packs s ! 2) = Some ''1.1.0''
        \<and> p_availability (packs s ! 2) = ShadowedByDiverged
    | _ \<Rightarrow> False)"
  by code_simp

text \<open>
  C1.  The claim is that every entry of \<^verbatim>\<open>dependencies\<close> is Available and that no two
  packages of one name are both Available, nested packages included.  When
  \<^verbatim>\<open>listNestedPackageFiles\<close> finds a nested package whose name is in the table already,
  it sets the availability of the package it is listing, not of the nested one, and
  leaves the table as it is.  In the project below the entry for \<^verbatim>\<open>foo\<close> ends up
  ShadowedByDiverged, and the dependency \<^verbatim>\<open>bar\<close> and the nested \<^verbatim>\<open>bar\<close> inside \<^verbatim>\<open>foo\<close>
  are both Available.
\<close>

theorem nested_collision_breaks_invariant:
  "(case newSource nestedEnv of
      Some (Inr s) \<Rightarrow>
        map_of (dependencies s) ''foo'' = Some 2
        \<and> p_name (packs s ! 2) = ''foo'' \<and> p_availability (packs s ! 2) = ShadowedByDiverged
        \<and> p_name (packs s ! 1) = ''bar'' \<and> p_type (packs s ! 1) = Package
        \<and> p_availability (packs s ! 1) = Available
        \<and> p_name (packs s ! 3) = ''bar'' \<and> p_type (packs s ! 3) = Nested
        \<and> p_availability (packs s ! 3) = Available
        \<and> p_children (packs s ! 0) = [1, 2] \<and> p_children (packs s ! 2) = [3]
    | _ \<Rightarrow> False)"
  by code_simp

section \<open>Properties of Project.rebuild\<close>

text \<open>Whatever the platform, the value returned is the iOS target's result; for a
  platform other than \<^verbatim>\<open>ios\<close> this is the result the target was created with.\<close>

lemma rebuild_returns_ios_result:
  assumes "Project_rebuild ops date env platform = Some (Inr r)"
  shows "rb_returned r = Some (rb_ios r) \<and> (platform \<noteq> ''ios'' \<longrightarrow> rb_ios r = initialBuildResult)"
  using assms unfolding Project_rebuild_def
  by (auto simp: Let_def split: option.splits sum.splits if_splits prod.splits)

text \<open>
  C6.  The claim is that \<^verbatim>\<open>rebuild(platform)\<close> returns the result of the requested
  platform's target.  After the \<^verbatim>\<open>switch\<close>, \<^verbatim>\<open>rebuild\<close> assigns
  \<^verbatim>\<open>platforms.ios.projectBuildResult\<close> to the value it returns.  For \<^verbatim>\<open>android\<close> on a
  project that was never built, the Android target reports changed scripts and a
  changed native project, and the call returns the untouched iOS result.
\<close>

theorem rebuild_android_returns_ios_result:
  "(case Project_rebuild (simpleOps 10) ''now'' smallEnv ''android'' of
      Some (Inr r) \<Rightarrow>
        rb_android r = \<lparr> changedNativeProject = True, changedScripts = True \<rparr>
        \<and> rb_ios r = \<lparr> changedNativeProject = False, changedScripts = False \<rparr>
        \<and> rb_returned r = Some \<lparr> changedNativeProject = False, changedScripts = False \<rparr>
    | _ \<Rightarrow> False)"
  by code_simp

section \<open>Rebuilding twice\<close>

section \<open>Properties of the sync action\<close>

text \<open>
  C9.  The claim is that the LiveSyncInfo stamp is written only after
  \<^verbatim>\<open>refreshApplication\<close> has completed, in every path.  A batch that holds
  \<^verbatim>\<open>package.json\<close> takes the deploy path: \<^verbatim>\<open>deploy\<close> itself ends with
  \<^verbatim>\<open>saveLivesyncInfo\<close>, and the refresh is called only after \<^verbatim>\<open>deploy\<close> has returned.
  The run below is that path; the stamp is the third call and the refresh the fourth.
\<close>

theorem deploy_path_stamps_before_refresh:
  "getSyncAction quietEnv [''package.json''] False freshDevice =
     Some (None,
       \<lparr> ls_events = [(PlatformDeploy, True), (ReinstallApplication, True),
                      (SaveLivesyncInfo ''t1'', True), (RefreshApplication True, True)],
         ls_livesyncInfo = Some ''t1'' \<rparr>)
   \<and> \<not> stampAfterRefresh False
         [(PlatformDeploy, True), (ReinstallApplication, True),
          (SaveLivesyncInfo ''t1'', True), (RefreshApplication True, True)]"
  by (simp add: getSyncAction_def fileChangeRequiresBuild_def basename_def deploy_def
      shouldBuildWhenLivesyncing_def saveLivesyncInfo_def call_def andThen_def skip_def
      quietEnv_def freshDevice_def)


section \<open>Properties of the iOS refresh\<close>

lemma liveEdit_sends:
  assumes "socket s" "\<forall>p \<in> set files. ios_readText env (localPath p) \<noteq> None"
    "\<forall>m. ios_writeOk env m"
  shows "socket (liveEdit env files s) \<and> restarts (liveEdit env files s) = restarts s
    \<and> (\<exists>new. sent (liveEdit env files s) = sent s @ new
          \<and> map scriptUrl new = map devicePath files \<and> list_all isSetScriptSource new)"
  using assms
proof (induction files arbitrary: s)
  case Nil
  then show ?case by simp
next
  case (Cons p files)
  from Cons.prems obtain content where c: "ios_readText env (localPath p) = Some content" by auto
  let ?s1 = "s\<lparr>currentPageReloadId := Suc (currentPageReloadId s)\<rparr>"
  let ?m = "SetScriptSource (devicePath p) content (Suc (currentPageReloadId s))"
  let ?s2 = "sendMessage env ?m ?s1"
  have s2: "socket ?s2" "sent ?s2 = sent s @ [?m]" "restarts ?s2 = restarts s"
    using Cons.prems by (simp_all add: sendMessage_def)
  have step: "liveEdit env (p # files) s = liveEdit env files ?s2"
    by (simp add: c)
  from Cons.IH[of ?s2] s2 Cons.prems
  obtain new where n: "socket (liveEdit env files ?s2)"
     "restarts (liveEdit env files ?s2) = restarts s"
     "sent (liveEdit env files ?s2) = (sent s @ [?m]) @ new"
     "map scriptUrl new = map devicePath files" "list_all isSetScriptSource new"
    by auto
  show ?case
    unfolding step using n
    by (intro conjI exI[of _ "?m # new"]) simp_all
qed

lemma setupSocketIfNeeded_connected:
  assumes "socket s \<or> ios_connects env" "\<forall>m. ios_writeOk env m"
  shows "\<exists>s1. setupSocketIfNeeded env s = (Inr True, s1) \<and> socket s1 \<and> restarts s1 = restarts s
     \<and> liveEdits s1 = liveEdits s
     \<and> sent s1 = sent s @ (if socket s then [] else [DebuggerEnable (Suc (currentPageReloadId s))])"
  using assms by (auto simp: setupSocketIfNeeded_def sendMessage_def Let_def)

text \<open>
  C8, as stated, at one script file.  The claim is that a scripts-only refresh with
  \<^verbatim>\<open>liveEdit\<close> on sends one \<^verbatim>\<open>Debugger.setScriptSource\<close> per file and then exactly one
  \<^verbatim>\<open>Page.reload\<close>.  \<^verbatim>\<open>refreshApplication\<close> passes \<^verbatim>\<open>otherFiles\<close> to \<^verbatim>\<open>reloadPage\<close>,
  and \<^verbatim>\<open>reloadPage\<close> sends only when that list is not empty: with scripts only, no
  \<^verbatim>\<open>Page.reload\<close> is among the messages the refresh returns with, and none is among
  the messages once the \<^verbatim>\<open>liveEdit\<close> it started has run.
\<close>

theorem scripts_only_refresh_sends_no_reload:
  "refreshApplication liveEnv [mainJs] False idle =
     (None, \<lparr> socket = True, currentPageReloadId = 1, sent = [DebuggerEnable 1],
              restarts = 0, liveEdits = [[mainJs]] \<rparr>)
   \<and> sent (liveEdit liveEnv [mainJs]
              \<lparr> socket = True, currentPageReloadId = 1, sent = [DebuggerEnable 1],
                restarts = 0, liveEdits = [[mainJs]] \<rparr>)
       = [DebuggerEnable 1, SetScriptSource ''/data/app/main.js'' ''exports.x = 1;'' 2]
   \<and> filter isPageReload
         [DebuggerEnable 1, SetScriptSource ''/data/app/main.js'' ''exports.x = 1;'' 2] = []"
  by (simp add: refreshApplication_def setupSocketIfNeeded_def sendMessage_def reloadPage_def
      liveEnv_def idle_def mainJs_def endsWith_def Let_def)

text \<open>
  C8, amended.  With \<^verbatim>\<open>liveEdit\<close> on, \<^verbatim>\<open>forceExecuteFullSync\<close> false, every device path
  ending in \<^verbatim>\<open>.js\<close>, the socket established (it is there already, or the connection
  can be made), and every read and every socket write succeeding, the refresh restarts
  nothing, sends no \<^verbatim>\<open>Page.reload\<close>, and starts \<^verbatim>\<open>liveEdit\<close> for the files; \<^verbatim>\<open>liveEdit\<close>
  writes one \<^verbatim>\<open>Debugger.setScriptSource\<close> per file, in the order of the files and with
  the file's device path as script URL, and nothing else.
\<close>

theorem scripts_only_refresh:
  assumes "ios_liveEdit env"
    and "\<forall>p \<in> set files. endsWith (devicePath p) ''.js''"
    and "socket s \<or> ios_connects env"
    and "\<forall>p \<in> set files. ios_readText env (localPath p) \<noteq> None"
    and "\<forall>m. ios_writeOk env m"
  shows "\<exists>s' new. refreshApplication env files False s = (None, s')
           \<and> restarts s' = restarts s
           \<and> liveEdits s' = liveEdits s @ [files]
           \<and> filter isPageReload (sent s') = filter isPageReload (sent s)
           \<and> sent (liveEdit env files s') = sent s' @ new
           \<and> map scriptUrl new = map devicePath files
           \<and> list_all isSetScriptSource new
           \<and> filter isPageReload new = []"
proof -
  have scripts: "filter (\<lambda>p. endsWith (devicePath p) ''.js'') files = files"
    using assms(2) by (simp add: filter_id_conv)
  have others: "filter (\<lambda>p. p \<notin> set files) files = []"
    by (simp add: filter_empty_conv)
  from setupSocketIfNeeded_connected[OF assms(3) assms(5)]
  obtain s1 where s1: "setupSocketIfNeeded env s = (Inr True, s1)" "socket s1"
      "restarts s1 = restarts s" "liveEdits s1 = liveEdits s"
      "sent s1 = sent s @ (if socket s then [] else [DebuggerEnable (Suc (currentPageReloadId s))])"
    by blast
  let ?s' = "s1\<lparr>liveEdits := liveEdits s1 @ [files]\<rparr>"
  have r: "refreshApplication env files False s = (None, ?s')"
    using assms(1) by (simp add: refreshApplication_def scripts others s1(1) reloadPage_def)
  have sock: "socket ?s'" using s1(2) by simp
  from liveEdit_sends[OF sock assms(4) assms(5)]
  obtain new where n: "sent (liveEdit env files ?s') = sent ?s' @ new"
      "map scriptUrl new = map devicePath files" "list_all isSetScriptSource new"
    by blast
  have noReload: "filter isPageReload new = []"
  proof -
    have "\<And>m. isSetScriptSource m \<Longrightarrow> \<not> isPageReload m"
      by (case_tac m) simp_all
    with n(3) show ?thesis
      by (auto simp: filter_empty_conv list_all_iff)
  qed
  have "filter isPageReload (sent ?s') = filter isPageReload (sent s)"
    using s1(5) by simp
  then show ?thesis
    using r n s1 noReload by (intro exI[of _ ?s'] exI[of _ new]) simp
qed

theorem scripts_only_refresh_witness:
  "ios_liveEdit liveEnv \<and> endsWith (devicePath mainJs) ''.js''
   \<and> (socket idle \<or> ios_connects liveEnv)
   \<and> (\<exists>s' new. refreshApplication liveEnv [mainJs] False idle = (None, s')
           \<and> restarts s' = restarts idle
           \<and> liveEdits s' = liveEdits idle @ [[mainJs]]
           \<and> filter isPageReload (sent s') = filter isPageReload (sent idle)
           \<and> sent (liveEdit liveEnv [mainJs] s') = sent s' @ new
           \<and> map scriptUrl new = map devicePath [mainJs]
           \<and> list_all isSetScriptSource new
           \<and> filter isPageReload new = [])"
proof -
  have h1: "ios_liveEdit liveEnv" by (simp add: liveEnv_def)
  have h2: "\<forall>p \<in> set [mainJs]. endsWith (devicePath p) ''.js''"
    by (simp add: mainJs_def endsWith_def)
  have h3: "socket idle \<or> ios_connects liveEnv" by (simp add: liveEnv_def)
  have h4: "\<forall>p \<in> set [mainJs]. ios_readText liveEnv (localPath p) \<noteq> None"
    by (simp add: liveEnv_def)
  have h5: "\<forall>m. ios_writeOk liveEnv m" by (simp add: liveEnv_def)
  have h2': "endsWith (devicePath mainJs) ''.js''" using h2 by simp
  from scripts_only_refresh[OF h1 h2 h3 h4 h5] h1 h2' h3 show ?thesis by blast
qed
end
